theory Spec2Isabelle
  imports Main
begin

section \<open>JSON values and the JavaScript operations the handlers use\<close>

text \<open>
  Every handler of \<^verbatim>\<open>supabase/functions/*/index.ts\<close> reads a JSON request body, checks it
  against a zod schema, resolves the caller's stored GitHub credential and then issues
  \<^verbatim>\<open>fetch\<close> calls against the GitHub REST API. The embedding keeps three things explicit:
  the JSON values that flow through a handler, the exceptions JavaScript raises on them,
  and the log of every call that leaves the function.

  A JavaScript string is modelled as a \<^typ>\<open>string\<close>, one \<^typ>\<open>char\<close> per UTF-16 code
  unit (the 8-bit range only). A JSON number is modelled as an \<^typ>\<open>int\<close>; the handlers
  never compute with numbers they receive, and numbers with a fraction or of magnitude
  \<^verbatim>\<open>1e21\<close> and above, which JavaScript prints in exponent form, are outside the model. A
  parsed object is an association list whose keys are distinct, in insertion order. \<open>None\<close>
  of type \<open>json option\<close> is JavaScript's \<^verbatim>\<open>undefined\<close>.
\<close>

datatype json =
    JNull
  | JBool bool
  | JNum int
  | JStr string
  | JArr "json list"
  | JObj "(string \<times> json) list"

type_synonym jsval = "json option"

text \<open>Decimal digits of a natural number (array indices in issue paths, numbers in templates).\<close>

fun show_nat :: "nat \<Rightarrow> string" where
  "show_nat n =
     (if n < 10 then [''0123456789'' ! n]
      else show_nat (n div 10) @ [''0123456789'' ! (n mod 10)])"

declare show_nat.simps [simp del]

definition show_int :: "int \<Rightarrow> string" where
  "show_int i = (if i < 0 then ''-'' @ show_nat (nat (- i)) else show_nat (nat i))"

text \<open>\<^verbatim>\<open>xs.join(sep)\<close> on an array of strings.\<close>

fun join :: "string \<Rightarrow> string list \<Rightarrow> string" where
  "join sep [] = []"
| "join sep [x] = x"
| "join sep (x # y # ys) = x @ sep @ join sep (y # ys)"

text \<open>
  String conversion as a template literal \<^verbatim>\<open>`${v}`\<close> performs it. An array is joined
  with commas, \<^verbatim>\<open>null\<close> elements giving the empty string; an object gives
  \<^verbatim>\<open>[object Object]\<close>.
\<close>

fun js_string :: "json \<Rightarrow> string" where
  "js_string JNull = ''null''"
| "js_string (JBool b) = (if b then ''true'' else ''false'')"
| "js_string (JNum i) = show_int i"
| "js_string (JStr s) = s"
| "js_string (JArr xs) = join '','' (map (\<lambda>x. if x = JNull then [] else js_string x) xs)"
| "js_string (JObj kvs) = ''[object Object]''"

definition template :: "jsval \<Rightarrow> string" where
  "template v = (case v of None \<Rightarrow> ''undefined'' | Some j \<Rightarrow> js_string j)"

text \<open>Exceptions are values. The zod issue types come first, since a \<^verbatim>\<open>ZodError\<close> carries them.\<close>

datatype pelem = Key string | Idx nat

datatype zexpected = ExpString | ExpBoolean | ExpArray | ExpObject | ExpOneOf "string list"

text \<open>
  The kind of a zod issue: its code and the data the library's message is built from.
  \<open>Invalid_string\<close> (a failed \<^verbatim>\<open>.regex\<close>) and \<open>Custom\<close> (a failed \<^verbatim>\<open>.refine\<close>) carry the
  message the schema supplies; the text of the other messages is the library's own and is
  kept symbolic.
\<close>

datatype zkind =
    Invalid_type zexpected string
  | Too_small nat
  | Too_big nat
  | Invalid_string string
  | Custom string
  | Invalid_enum_value "string list" string

datatype zissue = Issue (ipath: "pelem list") (ikind: zkind)

datatype exn =
    TypeError
  | RangeError
  | SyntaxError
  | ZodError "zissue list"
  | FetchError string
  | Error string

text \<open>
  Property access \<^verbatim>\<open>v.k\<close>: a \<^verbatim>\<open>TypeError\<close> on \<^verbatim>\<open>undefined\<close> and \<^verbatim>\<open>null\<close>, the stored value on
  an object, \<^verbatim>\<open>undefined\<close> on every other value (the handlers read only the names
  \<^verbatim>\<open>content\<close>, \<^verbatim>\<open>sha\<close>, \<^verbatim>\<open>object\<close>, \<^verbatim>\<open>tree\<close>, \<^verbatim>\<open>name\<close>, \<^verbatim>\<open>path\<close>, \<^verbatim>\<open>type\<close>, \<^verbatim>\<open>mode\<close>, \<^verbatim>\<open>owner\<close>
  and \<^verbatim>\<open>login\<close>, none of which a string, number, boolean or array has).
\<close>

fun get_prop :: "jsval \<Rightarrow> string \<Rightarrow> exn + jsval" where
  "get_prop None k = Inl TypeError"
| "get_prop (Some JNull) k = Inl TypeError"
| "get_prop (Some (JObj kvs)) k = Inr (map_of kvs k)"
| "get_prop (Some v) k = Inr None"

text \<open>Optional chaining \<^verbatim>\<open>v?.k\<close>.\<close>

fun opt_prop :: "jsval \<Rightarrow> string \<Rightarrow> jsval" where
  "opt_prop None k = None"
| "opt_prop (Some JNull) k = None"
| "opt_prop (Some (JObj kvs)) k = map_of kvs k"
| "opt_prop (Some v) k = None"

fun truthy :: "jsval \<Rightarrow> bool" where
  "truthy None = False"
| "truthy (Some JNull) = False"
| "truthy (Some (JBool b)) = b"
| "truthy (Some (JNum i)) = (i \<noteq> 0)"
| "truthy (Some (JStr s)) = (s \<noteq> [])"
| "truthy (Some (JArr xs)) = True"
| "truthy (Some (JObj kvs)) = True"

text \<open>
  \<^verbatim>\<open>JSON.stringify\<close> of an object literal drops the properties whose value is
  \<^verbatim>\<open>undefined\<close>.
\<close>

definition stringify :: "(string \<times> jsval) list \<Rightarrow> json" where
  "stringify fields = JObj (concat (map (\<lambda>(k, v). case v of None \<Rightarrow> [] | Some j \<Rightarrow> [(k, j)]) fields))"

text \<open>\<^verbatim>\<open>s.startsWith(p)\<close>, \<^verbatim>\<open>s.endsWith(p)\<close>, \<^verbatim>\<open>s.includes(p)\<close> and \<^verbatim>\<open>s.split(c)\<close>.\<close>

definition startsWith :: "string \<Rightarrow> string \<Rightarrow> bool" where
  "startsWith s p = (take (length p) s = p)"

definition endsWith :: "string \<Rightarrow> string \<Rightarrow> bool" where
  "endsWith s p = (length p \<le> length s \<and> drop (length s - length p) s = p)"

fun includes_str :: "string \<Rightarrow> string \<Rightarrow> bool" where
  "includes_str [] p = (p = [])"
| "includes_str (c # cs) p = (startsWith (c # cs) p \<or> includes_str cs p)"

fun split :: "char \<Rightarrow> string \<Rightarrow> string list" where
  "split sep [] = [[]]"
| "split sep (c # cs) =
     (if c = sep then [] # split sep cs
      else (case split sep cs of seg # segs \<Rightarrow> (c # seg) # segs | [] \<Rightarrow> [[c]]))"

text \<open>
  \<^verbatim>\<open>xs.pop()\<close> read for its value: the last element, \<^verbatim>\<open>undefined\<close> on an empty array.
\<close>

definition pop :: "string list \<Rightarrow> jsval" where
  "pop xs = (if xs = [] then None else Some (JStr (last xs)))"


section \<open>Schema validation (zod 3.22)\<close>

text \<open>
  The schemas of the handlers are built from \<^verbatim>\<open>z.string()\<close> with \<^verbatim>\<open>.min\<close>, \<^verbatim>\<open>.max\<close>,
  \<^verbatim>\<open>.regex\<close> and \<^verbatim>\<open>.refine\<close>, \<^verbatim>\<open>z.boolean()\<close>, \<^verbatim>\<open>z.enum\<close>, \<^verbatim>\<open>z.array\<close> with \<^verbatim>\<open>.min\<close> and
  \<^verbatim>\<open>.max\<close>, \<^verbatim>\<open>z.object\<close>, \<^verbatim>\<open>.optional()\<close> and \<^verbatim>\<open>.default\<close>. Every regular expression in
  the sources has the form \<^verbatim>\<open>/^[class]+$/\<close>; it is represented by the predicate of its
  character class and the message given with it.
\<close>

datatype zcheck = Min nat | Max nat | Regex "char \<Rightarrow> bool" string

datatype zschema =
    ZString "zcheck list"
  | ZBoolean
  | ZEnum "string list"
  | ZArray zschema "zcheck list"
  | ZObject "(string \<times> zschema) list"
  | ZOptional zschema
  | ZDefault zschema json
  | ZRefine zschema "string \<Rightarrow> bool" string

fun parsed_type :: "jsval \<Rightarrow> string" where
  "parsed_type None = ''undefined''"
| "parsed_type (Some JNull) = ''null''"
| "parsed_type (Some (JBool b)) = ''boolean''"
| "parsed_type (Some (JNum i)) = ''number''"
| "parsed_type (Some (JStr s)) = ''string''"
| "parsed_type (Some (JArr xs)) = ''array''"
| "parsed_type (Some (JObj kvs)) = ''object''"

definition invalid_type :: "pelem list \<Rightarrow> zexpected \<Rightarrow> jsval \<Rightarrow> zissue" where
  "invalid_type p e v = Issue p (Invalid_type e (parsed_type v))"

text \<open>
  The checks of a string schema run in order and each failing one adds an issue;
  \<^verbatim>\<open>/^[class]+$/.test(s)\<close> holds when \<open>s\<close> is not empty and all its characters are in the
  class. The checks of an array schema compare its length.
\<close>

fun string_check :: "pelem list \<Rightarrow> string \<Rightarrow> zcheck \<Rightarrow> zissue list" where
  "string_check p s (Min n) = (if length s < n then [Issue p (Too_small n)] else [])"
| "string_check p s (Max n) = (if n < length s then [Issue p (Too_big n)] else [])"
| "string_check p s (Regex cls msg) =
     (if s \<noteq> [] \<and> list_all cls s then [] else [Issue p (Invalid_string msg)])"

fun array_check :: "pelem list \<Rightarrow> json list \<Rightarrow> zcheck \<Rightarrow> zissue list" where
  "array_check p xs (Min n) = (if length xs < n then [Issue p (Too_small n)] else [])"
| "array_check p xs (Max n) = (if n < length xs then [Issue p (Too_big n)] else [])"
| "array_check p xs (Regex cls msg) = []"

text \<open>
  A parse returns the issues it added and, unless it was aborted (\<open>None\<close>), the parsed
  value. An object keeps the keys of its shape whose parsed value is defined (unknown
  keys are stripped); it and an array are aborted when one of their parts is.
\<close>

type_synonym zresult = "zissue list \<times> jsval option"

definition merge_array :: "zissue list \<Rightarrow> zresult list \<Rightarrow> zresult" where
  "merge_array pre rs =
     (pre @ concat (map fst rs),
      if list_all (\<lambda>r. snd r \<noteq> None) rs
      then Some (Some (JArr (concat (map (\<lambda>r. case snd r of Some (Some j) \<Rightarrow> [j] | _ \<Rightarrow> []) rs))))
      else None)"

definition merge_object :: "(string \<times> zresult) list \<Rightarrow> zresult" where
  "merge_object rs =
     (concat (map (\<lambda>(k, r). fst r) rs),
      if list_all (\<lambda>(k, r). snd r \<noteq> None) rs
      then Some (Some (JObj (concat (map (\<lambda>(k, r). case snd r of Some (Some j) \<Rightarrow> [(k, j)] | _ \<Rightarrow> []) rs))))
      else None)"

fun zparse :: "zschema \<Rightarrow> pelem list \<Rightarrow> jsval \<Rightarrow> zresult" where
  "zparse (ZString cs) p v =
     (case v of
        Some (JStr s) \<Rightarrow> (concat (map (string_check p s) cs), Some v)
      | _ \<Rightarrow> ([invalid_type p ExpString v], None))"
| "zparse ZBoolean p v =
     (case v of
        Some (JBool b) \<Rightarrow> ([], Some v)
      | _ \<Rightarrow> ([invalid_type p ExpBoolean v], None))"
| "zparse (ZEnum vals) p v =
     (case v of
        Some (JStr s) \<Rightarrow>
          if List.member vals s then ([], Some v)
          else ([Issue p (Invalid_enum_value vals s)], None)
      | _ \<Rightarrow> ([invalid_type p (ExpOneOf vals) v], None))"
| "zparse (ZArray s cs) p v =
     (case v of
        Some (JArr xs) \<Rightarrow>
          merge_array (concat (map (array_check p xs) cs))
            (map (\<lambda>(i, x). zparse s (p @ [Idx i]) (Some x)) (enumerate 0 xs))
      | _ \<Rightarrow> ([invalid_type p ExpArray v], None))"
| "zparse (ZObject shape) p v =
     (case v of
        Some (JObj kvs) \<Rightarrow>
          merge_object (map (\<lambda>(k, s). (k, zparse s (p @ [Key k]) (map_of kvs k))) shape)
      | _ \<Rightarrow> ([invalid_type p ExpObject v], None))"
| "zparse (ZOptional s) p v = (if v = None then ([], Some None) else zparse s p v)"
| "zparse (ZDefault s d) p v = zparse s p (if v = None then Some d else v)"
| "zparse (ZRefine s chk msg) p v =
     (case zparse s p v of
        (issues, None) \<Rightarrow> (issues, None)
      | (issues, Some w) \<Rightarrow>
          (issues @ (case w of Some (JStr x) \<Rightarrow> if chk x then [] else [Issue p (Custom msg)]
                     | _ \<Rightarrow> []),
           Some w))"

text \<open>
  \<^verbatim>\<open>schema.safeParse(body)\<close> succeeds exactly when no issue was added; \<^verbatim>\<open>schema.parse(body)\<close>
  throws a \<^verbatim>\<open>ZodError\<close> holding the issues otherwise.
\<close>

definition safeParse :: "zschema \<Rightarrow> json \<Rightarrow> zissue list + json" where
  "safeParse schema body =
     (case zparse schema [] (Some body) of
        ([], Some (Some d)) \<Rightarrow> Inr d
      | (issues, r) \<Rightarrow> Inl issues)"

definition parse :: "zschema \<Rightarrow> json \<Rightarrow> exn + json" where
  "parse schema body =
     (case safeParse schema body of Inl issues \<Rightarrow> Inl (ZodError issues) | Inr d \<Rightarrow> Inr d)"

text \<open>The \<^verbatim>\<open>details\<close> entry of an issue: \<^verbatim>\<open>e.path.join('.')\<close> and the issue's message.\<close>

fun pelem_string :: "pelem \<Rightarrow> string" where
  "pelem_string (Key k) = k"
| "pelem_string (Idx i) = show_nat i"

definition detail :: "zissue \<Rightarrow> string \<times> zkind" where
  "detail e = (join ''.'' (map pelem_string (ipath e)), ikind e)"

text \<open>Reading a field of validated data.\<close>

definition str_field :: "json \<Rightarrow> string \<Rightarrow> string" where
  "str_field d k = (case opt_prop (Some d) k of Some (JStr s) \<Rightarrow> s | _ \<Rightarrow> [])"

definition opt_str_field :: "json \<Rightarrow> string \<Rightarrow> string option" where
  "opt_str_field d k = (case opt_prop (Some d) k of Some (JStr s) \<Rightarrow> Some s | _ \<Rightarrow> None)"

definition opt_bool_field :: "json \<Rightarrow> string \<Rightarrow> bool option" where
  "opt_bool_field d k = (case opt_prop (Some d) k of Some (JBool b) \<Rightarrow> Some b | _ \<Rightarrow> None)"

definition arr_field :: "json \<Rightarrow> string \<Rightarrow> json list" where
  "arr_field d k = (case opt_prop (Some d) k of Some (JArr xs) \<Rightarrow> xs | _ \<Rightarrow> [])"

text \<open>The character classes of the regular expressions in the schemas.\<close>

definition alnum :: "char \<Rightarrow> bool" where
  "alnum c = List.member ''abcdefghijklmnopqrstuvwxyzABCDEFGHIJKLMNOPQRSTUVWXYZ0123456789'' c"

definition owner_char :: "char \<Rightarrow> bool" where
  "owner_char c = (alnum c \<or> c = CHR ''-'')"

definition repo_char :: "char \<Rightarrow> bool" where
  "repo_char c = (alnum c \<or> List.member ''._-'' c)"

definition branch_char :: "char \<Rightarrow> bool" where
  "branch_char c = (alnum c \<or> List.member ''._/-'' c)"

text \<open>The refinement \<^verbatim>\<open>(p) => !p.includes('..') && !p.startsWith('/')\<close>.\<close>

definition no_traversal :: "string \<Rightarrow> bool" where
  "no_traversal p = (\<not> includes_str p ''..'' \<and> \<not> startsWith p ''/'')"


section \<open>Calls that leave a handler\<close>

text \<open>
  A handler is a function of the inbound request, of what the session store answers and
  of the upstream service. The upstream service is an oracle: given the log of all calls
  made so far and the next request, it either rejects (a network fault, \<^verbatim>\<open>fetch\<close> throws)
  or answers with a status, a body text and the body parsed as JSON (\<open>None\<close> when the text
  is not JSON, where \<^verbatim>\<open>response.json()\<close> throws). Since the oracle sees the whole log, every
  deterministic stateful server is an instance, and every assignment of outcomes to the
  requests of one run is realised by some oracle. \<^verbatim>\<open>console.log\<close> and \<^verbatim>\<open>console.error\<close> are
  not modelled.
\<close>

datatype verb = GET | PUT | POST | PATCH | DELETE

record request =
  verb :: verb
  url :: string
  headers :: "(string \<times> string) list"
  payload :: "json option"

record response =
  status :: nat
  rtext :: string
  json_body :: "json option"

datatype fetch_result = Rejected string | Responded response

datatype call =
    AuthGetUser
  | SelectProfile string string
  | GetGitHubToken
  | CreateOrGetBranch string string string
  | Fetch request fetch_result

type_synonym upstream = "call list \<Rightarrow> request \<Rightarrow> fetch_result"

definition fetch :: "upstream \<Rightarrow> call list \<Rightarrow> request \<Rightarrow> fetch_result \<times> call list" where
  "fetch up log rq = (let r = up log rq in (r, log @ [Fetch rq r]))"

text \<open>
  The log records an exchange when the promise of its \<^verbatim>\<open>fetch\<close> has settled. Which requests
  are in flight together depends on when each \<^verbatim>\<open>fetch\<close> is called, so the two batch loops
  (move-files and upload-files) also keep a timeline: \<open>Issued rq\<close> when \<^verbatim>\<open>fetch\<close> is called
  with \<open>rq\<close>, \<open>Settled rq r\<close> when the promise it returned settles with \<open>r\<close>. The statement
  \<^verbatim>\<open>await fetch(rq)\<close> suspends the function that holds it from the call until the promise
  settles, so that function does nothing in between: \<open>await_fetch\<close> appends both events.
\<close>

datatype event = Issued request | Settled request fetch_result

definition await_fetch ::
  "upstream \<Rightarrow> call list \<Rightarrow> event list \<Rightarrow> request
     \<Rightarrow> fetch_result \<times> call list \<times> event list" where
  "await_fetch up log line rq =
     (let r = up log rq in (r, log @ [Fetch rq r], line @ [Issued rq, Settled rq r]))"

text \<open>\<^verbatim>\<open>response.ok\<close>: the status is in the range 200 to 299.\<close>

definition ok :: "response \<Rightarrow> bool" where
  "ok r = (200 \<le> status r \<and> status r \<le> 299)"

text \<open>The two header sets of the upstream calls, in the order the sources write them.\<close>

definition gh_headers :: "string \<Rightarrow> (string \<times> string) list" where
  "gh_headers token =
     [(''Authorization'', ''Bearer '' @ token),
      (''Accept'', ''application/vnd.github.v3+json''),
      (''User-Agent'', ''RepoPush'')]"

definition gh_headers_json :: "string \<Rightarrow> (string \<times> string) list" where
  "gh_headers_json token =
     [(''Authorization'', ''Bearer '' @ token),
      (''Accept'', ''application/vnd.github.v3+json''),
      (''Content-Type'', ''application/json''),
      (''User-Agent'', ''RepoPush'')]"

text \<open>
  The inbound request: its method and the result of \<^verbatim>\<open>await req.json()\<close> (\<open>None\<close> when
  that throws). The session store: the user \<^verbatim>\<open>supabase.auth.getUser()\<close> resolves (its id),
  and the row and error of the \<^verbatim>\<open>profiles\<close> query.
\<close>

record inbound =
  http_method :: string
  body_json :: "json option"

record profile_row =
  github_access_token :: "string option"
  github_username :: "string option"

record session =
  auth_user :: "string option"
  profiles_row :: "profile_row option"
  profiles_error :: bool

text \<open>
  \<^verbatim>\<open>profile?.github_access_token\<close> and \<^verbatim>\<open>profile?.github_username\<close> where the source tests
  them for truthiness: the stored string when the row exists and the string is not empty.
\<close>

definition truthy_token :: "profile_row option \<Rightarrow> string option" where
  "truthy_token row =
     (case row of None \<Rightarrow> None
      | Some r \<Rightarrow> (case github_access_token r of None \<Rightarrow> None
                   | Some t \<Rightarrow> if t = [] then None else Some t))"

definition truthy_username :: "profile_row option \<Rightarrow> string option" where
  "truthy_username row =
     (case row of None \<Rightarrow> None
      | Some r \<Rightarrow> (case github_username r of None \<Rightarrow> None
                   | Some u \<Rightarrow> if u = [] then None else Some u))"

text \<open>
  What a handler returns: the status of its \<^verbatim>\<open>Response\<close> and the body. \<open>InvalidInput\<close> is
  the body \<^verbatim>\<open>{error: 'Invalid input', details: [...]}\<close>, one entry per issue; \<open>CaughtError e\<close>
  is the body \<^verbatim>\<open>{error: e.message}\<close> of an exception that a \<^verbatim>\<open>catch\<close> block turned into a
  response.
\<close>

datatype reply_body =
    NoBody
  | JsonBody json
  | InvalidInput "(string \<times> zkind) list"
  | CaughtError exn

record reply =
  code :: nat
  rbody :: reply_body

definition preflight :: reply where
  "preflight = \<lparr>code = 200, rbody = NoBody\<rparr>"

definition respond :: "nat \<Rightarrow> json \<Rightarrow> reply" where
  "respond c j = \<lparr>code = c, rbody = JsonBody j\<rparr>"

definition error_reply :: "nat \<Rightarrow> string \<Rightarrow> reply" where
  "error_reply c msg = respond c (JObj [(''error'', JStr msg)])"

definition invalid_input :: "zissue list \<Rightarrow> reply" where
  "invalid_input issues = \<lparr>code = 400, rbody = InvalidInput (map detail issues)\<rparr>"

definition caught :: "exn \<Rightarrow> reply" where
  "caught e = \<lparr>code = 500, rbody = CaughtError e\<rparr>"

definition success_reply :: reply where
  "success_reply = respond 200 (JObj [(''success'', JBool True)])"

text \<open>
  \<^verbatim>\<open>new Response(JSON.stringify(j), {status})\<close> with the status of an upstream response.
  The constructor throws a \<^verbatim>\<open>RangeError\<close> for a status outside 200 to 599 and a
  \<^verbatim>\<open>TypeError\<close> for a body together with a null-body status (204, 205, 304). Every such
  statement stands inside the handler's \<^verbatim>\<open>try\<close> block, so the exception becomes the reply
  of its \<^verbatim>\<open>catch\<close> block.
\<close>

definition relay :: "nat \<Rightarrow> json \<Rightarrow> reply" where
  "relay c j =
     (if c < 200 \<or> 599 < c then caught RangeError
      else if c = 204 \<or> c = 205 \<or> c = 304 then caught TypeError
      else respond c j)"

definition relay_error :: "nat \<Rightarrow> string \<Rightarrow> reply" where
  "relay_error c msg = relay c (JObj [(''error'', JStr msg)])"


section \<open>rename-file\<close>

definition renameFileSchema :: zschema where
  "renameFileSchema = ZObject
     [(''owner'', ZString [Min 1]),
      (''repo'', ZString [Min 1]),
      (''path'', ZString []),
      (''new_path'', ZString []),
      (''sha'', ZString [Min 1]),
      (''branch'', ZDefault (ZString []) (JStr ''main''))]"

definition contents_url :: "string \<Rightarrow> string \<Rightarrow> string \<Rightarrow> string" where
  "contents_url owner repo path =
     ''https://api.github.com/repos/'' @ owner @ ''/'' @ repo @ ''/contents/'' @ path"

text \<open>
  The body of the handler after \<^verbatim>\<open>renameFileSchema.parse(body)\<close>. The profile query selects
  \<^verbatim>\<open>github_access_token\<close> only, and the handler never compares \<open>owner\<close> with anything.
\<close>

definition rename_file_run ::
  "upstream \<Rightarrow> session \<Rightarrow> string \<Rightarrow> string \<Rightarrow> string \<Rightarrow> string \<Rightarrow> string \<Rightarrow> string
     \<Rightarrow> reply \<times> call list" where
  "rename_file_run up s owner repo path new_path sha branch =
     (case auth_user s of
        None \<Rightarrow> (error_reply 401 ''Unauthorized'', [AuthGetUser])
      | Some uid \<Rightarrow>
     (let log0 = [AuthGetUser, SelectProfile uid ''github_access_token''] in
      case truthy_token (profiles_row s) of
        None \<Rightarrow> (error_reply 401 ''GitHub token not found'', log0)
      | Some token \<Rightarrow>
     (case fetch up log0
             \<lparr>verb = GET, url = contents_url owner repo path @ ''?ref='' @ branch,
              headers = gh_headers token, payload = None\<rparr> of
        (Rejected m, log1) \<Rightarrow> (caught (FetchError m), log1)
      | (Responded getResponse, log1) \<Rightarrow>
     (if \<not> ok getResponse
      then (relay_error (status getResponse) ''Failed to get file content'', log1)
      else case json_body getResponse of
        None \<Rightarrow> (caught SyntaxError, log1)
      | Some fileData \<Rightarrow>
     (case get_prop (Some fileData) ''content'' of
        Inl e \<Rightarrow> (caught e, log1)
      | Inr content \<Rightarrow>
     (case fetch up log1
             \<lparr>verb = PUT, url = contents_url owner repo new_path,
              headers = gh_headers token,
              payload = Some (stringify
                [(''message'', Some (JStr (''Rename '' @ path @ '' to '' @ new_path))),
                 (''content'', content),
                 (''branch'', Some (JStr branch))])\<rparr> of
        (Rejected m, log2) \<Rightarrow> (caught (FetchError m), log2)
      | (Responded createResponse, log2) \<Rightarrow>
     (if \<not> ok createResponse
      then (relay_error (status createResponse) ''Failed to create file at new location'', log2)
      else case fetch up log2
             \<lparr>verb = DELETE, url = contents_url owner repo path,
              headers = gh_headers token,
              payload = Some (stringify
                [(''message'', Some (JStr (''Delete old file '' @ path))),
                 (''sha'', Some (JStr sha)),
                 (''branch'', Some (JStr branch))])\<rparr> of
        (Rejected m, log3) \<Rightarrow> (caught (FetchError m), log3)
      | (Responded deleteResponse, log3) \<Rightarrow> (success_reply, log3))))))))"

definition rename_file :: "upstream \<Rightarrow> session \<Rightarrow> inbound \<Rightarrow> reply \<times> call list" where
  "rename_file up s req =
     (if http_method req = ''OPTIONS'' then (preflight, [])
      else case body_json req of
        None \<Rightarrow> (caught SyntaxError, [])
      | Some body \<Rightarrow>
     (case parse renameFileSchema body of
        Inl e \<Rightarrow> (caught e, [])
      | Inr d \<Rightarrow>
          rename_file_run up s (str_field d ''owner'') (str_field d ''repo'')
            (str_field d ''path'') (str_field d ''new_path'') (str_field d ''sha'')
            (str_field d ''branch'')))"

section \<open>move-files\<close>

definition moveFilesSchema :: zschema where
  "moveFilesSchema = ZObject
     [(''owner'', ZString [Min 1]),
      (''repo'', ZString [Min 1]),
      (''files'', ZArray (ZObject
         [(''path'', ZString []),
          (''sha'', ZString []),
          (''type'', ZEnum [''file'', ''dir''])]) []),
      (''destination'', ZString []),
      (''branch'', ZDefault (ZString []) (JStr ''main''))]"

record move_item =
  mi_path :: string
  mi_sha :: string
  mi_type :: string

definition move_item_of :: "json \<Rightarrow> move_item" where
  "move_item_of j =
     \<lparr>mi_path = str_field j ''path'', mi_sha = str_field j ''sha'', mi_type = str_field j ''type''\<rparr>"

text \<open>
  The three requests of one item. \<open>newPath\<close> is
  \<^verbatim>\<open>destination ? `${destination}/${fileName}` : fileName\<close> with
  \<^verbatim>\<open>fileName = file.path.split('/').pop()\<close>.
\<close>

definition move_new_path :: "string \<Rightarrow> string \<Rightarrow> string" where
  "move_new_path destination path =
     (let fileName = pop (split CHR ''/'' path)
      in if destination \<noteq> [] then destination @ ''/'' @ template fileName
         else template fileName)"

definition move_get :: "string \<Rightarrow> string \<Rightarrow> string \<Rightarrow> string \<Rightarrow> move_item \<Rightarrow> request" where
  "move_get token owner repo branch file =
     \<lparr>verb = GET, url = contents_url owner repo (mi_path file) @ ''?ref='' @ branch,
      headers = gh_headers token, payload = None\<rparr>"

definition move_put ::
  "string \<Rightarrow> string \<Rightarrow> string \<Rightarrow> string \<Rightarrow> string \<Rightarrow> move_item \<Rightarrow> jsval \<Rightarrow> request" where
  "move_put token owner repo destination branch file content =
     (let newPath = move_new_path destination (mi_path file) in
      \<lparr>verb = PUT, url = contents_url owner repo newPath,
       headers = gh_headers token,
       payload = Some (stringify
         [(''message'', Some (JStr (''Move '' @ mi_path file @ '' to '' @ newPath))),
          (''content'', content),
          (''branch'', Some (JStr branch))])\<rparr>)"

definition move_delete :: "string \<Rightarrow> string \<Rightarrow> string \<Rightarrow> string \<Rightarrow> move_item \<Rightarrow> request" where
  "move_delete token owner repo branch file =
     \<lparr>verb = DELETE, url = contents_url owner repo (mi_path file),
      headers = gh_headers token,
      payload = Some (stringify
        [(''message'', Some (JStr (''Delete old file '' @ mi_path file))),
         (''sha'', Some (JStr (mi_sha file))),
         (''branch'', Some (JStr branch))])\<rparr>"

text \<open>
  The loop \<^verbatim>\<open>for (const file of files)\<close>. It returns the exception that left it, if any,
  the log and the timeline. A failed read skips the item (\<^verbatim>\<open>continue\<close>); the responses of
  the write and of the delete are awaited and not inspected. Each of the three calls is
  \<^verbatim>\<open>await fetch(...)\<close> in the body of the loop, so the next statement of the loop, and the
  next item, start only when the promise has settled.
\<close>

fun move_loop ::
  "upstream \<Rightarrow> string \<Rightarrow> string \<Rightarrow> string \<Rightarrow> string \<Rightarrow> string \<Rightarrow> call list \<Rightarrow> event list
     \<Rightarrow> move_item list \<Rightarrow> exn option \<times> call list \<times> event list" where
  "move_loop up token owner repo destination branch log line [] = (None, log, line)"
| "move_loop up token owner repo destination branch log line (file # files) =
     (case await_fetch up log line (move_get token owner repo branch file) of
        (Rejected m, log1, line1) \<Rightarrow> (Some (FetchError m), log1, line1)
      | (Responded getResponse, log1, line1) \<Rightarrow>
     (if \<not> ok getResponse
      then move_loop up token owner repo destination branch log1 line1 files
      else case json_body getResponse of
        None \<Rightarrow> (Some SyntaxError, log1, line1)
      | Some fileData \<Rightarrow>
     (case get_prop (Some fileData) ''content'' of
        Inl e \<Rightarrow> (Some e, log1, line1)
      | Inr content \<Rightarrow>
     (case await_fetch up log1 line1
             (move_put token owner repo destination branch file content) of
        (Rejected m, log2, line2) \<Rightarrow> (Some (FetchError m), log2, line2)
      | (Responded createResponse, log2, line2) \<Rightarrow>
     (case await_fetch up log2 line2 (move_delete token owner repo branch file) of
        (Rejected m, log3, line3) \<Rightarrow> (Some (FetchError m), log3, line3)
      | (Responded deleteResponse, log3, line3) \<Rightarrow>
          move_loop up token owner repo destination branch log3 line3 files)))))"

definition move_files_run ::
  "upstream \<Rightarrow> session \<Rightarrow> string \<Rightarrow> string \<Rightarrow> move_item list \<Rightarrow> string \<Rightarrow> string
     \<Rightarrow> reply \<times> call list" where
  "move_files_run up s owner repo files destination branch =
     (case auth_user s of
        None \<Rightarrow> (error_reply 401 ''Unauthorized'', [AuthGetUser])
      | Some uid \<Rightarrow>
     (let log0 = [AuthGetUser, SelectProfile uid ''github_access_token''] in
      case truthy_token (profiles_row s) of
        None \<Rightarrow> (error_reply 401 ''GitHub token not found'', log0)
      | Some token \<Rightarrow>
     (case move_loop up token owner repo destination branch log0 [] files of
        (Some e, log1, line) \<Rightarrow> (caught e, log1)
      | (None, log1, line) \<Rightarrow> (success_reply, log1))))"

definition move_files :: "upstream \<Rightarrow> session \<Rightarrow> inbound \<Rightarrow> reply \<times> call list" where
  "move_files up s req =
     (if http_method req = ''OPTIONS'' then (preflight, [])
      else case body_json req of
        None \<Rightarrow> (caught SyntaxError, [])
      | Some body \<Rightarrow>
     (case parse moveFilesSchema body of
        Inl e \<Rightarrow> (caught e, [])
      | Inr d \<Rightarrow>
          move_files_run up s (str_field d ''owner'') (str_field d ''repo'')
            (map move_item_of (arr_field d ''files'')) (str_field d ''destination'')
            (str_field d ''branch'')))"


section \<open>rename-repo, update-repo and star-repo\<close>

definition renameRepoSchema :: zschema where
  "renameRepoSchema = ZObject
     [(''owner'', ZString [Min 1]),
      (''repo'', ZString [Min 1]),
      (''new_name'', ZString [Min 1])]"

definition repo_url :: "string \<Rightarrow> string \<Rightarrow> string" where
  "repo_url owner repo = ''https://api.github.com/repos/'' @ owner @ ''/'' @ repo"

definition rename_repo_run ::
  "upstream \<Rightarrow> session \<Rightarrow> string \<Rightarrow> string \<Rightarrow> string \<Rightarrow> reply \<times> call list" where
  "rename_repo_run up s owner repo new_name =
     (case auth_user s of
        None \<Rightarrow> (error_reply 401 ''Unauthorized'', [AuthGetUser])
      | Some uid \<Rightarrow>
     (let log0 = [AuthGetUser, SelectProfile uid ''github_access_token, github_username''] in
      if profiles_error s then (error_reply 401 ''GitHub token not found'', log0)
      else case truthy_token (profiles_row s) of
        None \<Rightarrow> (error_reply 401 ''GitHub token not found'', log0)
      | Some token \<Rightarrow>
     (if map_option github_username (profiles_row s) \<noteq> Some (Some owner)
      then (error_reply 403 ''You can only rename your own repositories'', log0)
      else case fetch up log0
             \<lparr>verb = PATCH, url = repo_url owner repo, headers = gh_headers token,
              payload = Some (stringify [(''name'', Some (JStr new_name))])\<rparr> of
        (Rejected m, log1) \<Rightarrow> (caught (FetchError m), log1)
      | (Responded githubResponse, log1) \<Rightarrow>
     (if \<not> ok githubResponse
      then (relay_error (status githubResponse) ''Failed to rename repository'', log1)
      else case json_body githubResponse of
        None \<Rightarrow> (caught SyntaxError, log1)
      | Some result \<Rightarrow>
     (case get_prop (Some result) ''name'' of
        Inl e \<Rightarrow> (caught e, log1)
      | Inr name \<Rightarrow>
          (respond 200 (stringify [(''success'', Some (JBool True)), (''new_name'', name)]),
           log1))))))"

definition rename_repo :: "upstream \<Rightarrow> session \<Rightarrow> inbound \<Rightarrow> reply \<times> call list" where
  "rename_repo up s req =
     (if http_method req = ''OPTIONS'' then (preflight, [])
      else case body_json req of
        None \<Rightarrow> (caught SyntaxError, [])
      | Some body \<Rightarrow>
     (case parse renameRepoSchema body of
        Inl e \<Rightarrow> (caught e, [])
      | Inr d \<Rightarrow>
          rename_repo_run up s (str_field d ''owner'') (str_field d ''repo'')
            (str_field d ''new_name'')))"

definition updateRepoSchema :: zschema where
  "updateRepoSchema = ZObject
     [(''owner'', ZString [Min 1]),
      (''repo'', ZString [Min 1]),
      (''description'', ZOptional (ZString [Max 350])),
      (''homepage'', ZOptional (ZString [Max 255])),
      (''private'', ZOptional ZBoolean)]"

definition update_repo_run ::
  "upstream \<Rightarrow> session \<Rightarrow> string \<Rightarrow> string \<Rightarrow> string option \<Rightarrow> string option \<Rightarrow> bool option
     \<Rightarrow> reply \<times> call list" where
  "update_repo_run up s owner repo description homepage isPrivate =
     (case auth_user s of
        None \<Rightarrow> (error_reply 401 ''Unauthorized'', [AuthGetUser])
      | Some uid \<Rightarrow>
     (let log0 = [AuthGetUser, SelectProfile uid ''github_access_token, github_username''] in
      if profiles_error s then (error_reply 401 ''GitHub token not found'', log0)
      else case truthy_token (profiles_row s) of
        None \<Rightarrow> (error_reply 401 ''GitHub token not found'', log0)
      | Some token \<Rightarrow>
     (if map_option github_username (profiles_row s) \<noteq> Some (Some owner)
      then (error_reply 403 ''You can only update your own repositories'', log0)
      else case fetch up log0
             \<lparr>verb = PATCH, url = repo_url owner repo, headers = gh_headers_json token,
              payload = Some (stringify
                [(''description'', map_option JStr description),
                 (''homepage'', map_option JStr homepage),
                 (''private'', map_option JBool isPrivate)])\<rparr> of
        (Rejected m, log1) \<Rightarrow> (caught (FetchError m), log1)
      | (Responded githubResponse, log1) \<Rightarrow>
     (if \<not> ok githubResponse
      then (relay_error (status githubResponse) ''Failed to update repository'', log1)
      else case json_body githubResponse of
        None \<Rightarrow> (caught SyntaxError, log1)
      | Some updatedRepo \<Rightarrow>
          (respond 200 (JObj [(''repository'', updatedRepo)]), log1)))))"

definition update_repo :: "upstream \<Rightarrow> session \<Rightarrow> inbound \<Rightarrow> reply \<times> call list" where
  "update_repo up s req =
     (if http_method req = ''OPTIONS'' then (preflight, [])
      else case body_json req of
        None \<Rightarrow> (caught SyntaxError, [])
      | Some body \<Rightarrow>
     (case parse updateRepoSchema body of
        Inl e \<Rightarrow> (caught e, [])
      | Inr d \<Rightarrow>
          update_repo_run up s (str_field d ''owner'') (str_field d ''repo'')
            (opt_str_field d ''description'') (opt_str_field d ''homepage'')
            (opt_bool_field d ''private'')))"

definition starRepoSchema :: zschema where
  "starRepoSchema = ZObject
     [(''owner'', ZString [Min 1]),
      (''repo'', ZString [Min 1]),
      (''starred'', ZBoolean)]"

definition star_repo_run ::
  "upstream \<Rightarrow> session \<Rightarrow> string \<Rightarrow> string \<Rightarrow> bool \<Rightarrow> reply \<times> call list" where
  "star_repo_run up s owner repo starred =
     (case auth_user s of
        None \<Rightarrow> (error_reply 401 ''Unauthorized'', [AuthGetUser])
      | Some uid \<Rightarrow>
     (let log0 = [AuthGetUser, SelectProfile uid ''github_access_token''] in
      if profiles_error s then (error_reply 401 ''GitHub token not found'', log0)
      else case truthy_token (profiles_row s) of
        None \<Rightarrow> (error_reply 401 ''GitHub token not found'', log0)
      | Some token \<Rightarrow>
     (case fetch up log0
             \<lparr>verb = (if starred then PUT else DELETE),
              url = ''https://api.github.com/user/starred/'' @ owner @ ''/'' @ repo,
              headers =
                [(''Authorization'', ''Bearer '' @ token),
                 (''Accept'', ''application/vnd.github.v3+json''),
                 (''Content-Length'', ''0''),
                 (''User-Agent'', ''RepoPush'')],
              payload = None\<rparr> of
        (Rejected m, log1) \<Rightarrow> (caught (FetchError m), log1)
      | (Responded githubResponse, log1) \<Rightarrow>
     (if \<not> ok githubResponse \<and> status githubResponse \<noteq> 204
      then (relay_error (status githubResponse) ''Failed to update star status'', log1)
      else (respond 200 (JObj [(''success'', JBool True), (''starred'', JBool starred)]),
            log1)))))"

definition star_repo :: "upstream \<Rightarrow> session \<Rightarrow> inbound \<Rightarrow> reply \<times> call list" where
  "star_repo up s req =
     (if http_method req = ''OPTIONS'' then (preflight, [])
      else case body_json req of
        None \<Rightarrow> (caught SyntaxError, [])
      | Some body \<Rightarrow>
     (case parse starRepoSchema body of
        Inl e \<Rightarrow> (caught e, [])
      | Inr d \<Rightarrow>
          star_repo_run up s (str_field d ''owner'') (str_field d ''repo'')
            (opt_bool_field d ''starred'' = Some True)))"

section \<open>create-file\<close>

definition path_schema :: zschema where
  "path_schema = ZRefine (ZString [Min 1, Max 4096]) no_traversal ''Path traversal not allowed''"

definition owner_schema :: zschema where
  "owner_schema = ZString [Min 1, Max 39, Regex owner_char ''Invalid owner name'']"

definition repo_schema :: "string \<Rightarrow> zschema" where
  "repo_schema msg = ZString [Min 1, Max 100, Regex repo_char msg]"

definition branch_schema :: "string \<Rightarrow> zschema" where
  "branch_schema msg = ZString [Min 1, Max 255, Regex branch_char msg]"

definition createFileSchema :: zschema where
  "createFileSchema = ZObject
     [(''owner'', owner_schema),
      (''repo'', repo_schema ''Invalid repo name''),
      (''path'', path_schema),
      (''content'', ZString [Max 10485760]),
      (''message'', ZOptional (ZString [Min 1, Max 500])),
      (''branch'', ZOptional (branch_schema ''Invalid branch name''))]"

text \<open>\<^verbatim>\<open>a || b\<close> on an optional string: the string when it is defined and not empty.\<close>

definition or_else :: "string option \<Rightarrow> string \<Rightarrow> string" where
  "or_else a b = (case a of None \<Rightarrow> b | Some x \<Rightarrow> if x = [] then b else x)"

text \<open>
  \<open>encode\<close> stands for \<^verbatim>\<open>btoa(String.fromCharCode(...new TextEncoder().encode(content)))\<close>,
  which is a platform function: it yields the base64 text or throws.
\<close>

definition create_file_run ::
  "(string \<Rightarrow> exn + string) \<Rightarrow> upstream \<Rightarrow> session \<Rightarrow> string \<Rightarrow> string \<Rightarrow> string \<Rightarrow> string
     \<Rightarrow> string option \<Rightarrow> string option \<Rightarrow> reply \<times> call list" where
  "create_file_run encode up s owner repo path content message branch =
     (case auth_user s of
        None \<Rightarrow> (error_reply 401 ''Unauthorized'', [AuthGetUser])
      | Some uid \<Rightarrow>
     (let log0 = [AuthGetUser, SelectProfile uid ''github_access_token, github_username''] in
      case truthy_token (profiles_row s) of
        None \<Rightarrow> (error_reply 403 ''GitHub profile not found'', log0)
      | Some token \<Rightarrow>
     (case truthy_username (profiles_row s) of
        None \<Rightarrow> (error_reply 403 ''GitHub profile not found'', log0)
      | Some username \<Rightarrow>
     (if owner \<noteq> username
      then (error_reply 403 ''Unauthorized: can only access your own repositories'', log0)
      else case encode content of
        Inl e \<Rightarrow> (caught e, log0)
      | Inr base64Content \<Rightarrow>
     (case fetch up log0
             \<lparr>verb = PUT, url = contents_url owner repo path, headers = gh_headers_json token,
              payload = Some (stringify
                [(''message'', Some (JStr (or_else message (''Create '' @ path)))),
                 (''content'', Some (JStr base64Content)),
                 (''branch'', Some (JStr (or_else branch ''main'')))])\<rparr> of
        (Rejected m, log1) \<Rightarrow> (caught (FetchError m), log1)
      | (Responded githubResponse, log1) \<Rightarrow>
     (if \<not> ok githubResponse
      then (if status githubResponse = 422
            then (error_reply 422 ''File already exists'', log1)
            else (relay (status githubResponse)
                    (JObj [(''error'', JStr ''Failed to create file''),
                           (''details'', JStr (rtext githubResponse))]), log1))
      else case json_body githubResponse of
        None \<Rightarrow> (caught SyntaxError, log1)
      | Some result \<Rightarrow>
          (respond 200 (JObj [(''success'', JBool True), (''data'', result)]), log1)))))))"

definition create_file ::
  "(string \<Rightarrow> exn + string) \<Rightarrow> upstream \<Rightarrow> session \<Rightarrow> inbound \<Rightarrow> reply \<times> call list" where
  "create_file encode up s req =
     (if http_method req = ''OPTIONS'' then (preflight, [])
      else case body_json req of
        None \<Rightarrow> (caught SyntaxError, [])
      | Some body \<Rightarrow>
     (case safeParse createFileSchema body of
        Inl issues \<Rightarrow> (invalid_input issues, [])
      | Inr d \<Rightarrow>
          create_file_run encode up s (str_field d ''owner'') (str_field d ''repo'')
            (str_field d ''path'') (str_field d ''content'') (opt_str_field d ''message'')
            (opt_str_field d ''branch'')))"


section \<open>upload-files\<close>

definition uploadFilesSchema :: zschema where
  "uploadFilesSchema = ZObject
     [(''owner'', owner_schema),
      (''repo'', repo_schema ''Invalid repo name''),
      (''files'', ZArray (ZObject
         [(''path'', path_schema),
          (''content'', ZString [Max 10485760])]) [Min 1, Max 100]),
      (''message'', ZOptional (ZString [Min 1, Max 500])),
      (''branch'', ZOptional (branch_schema ''Invalid branch name''))]"

record upload_item =
  ui_path :: string
  ui_content :: string

definition upload_item_of :: "json \<Rightarrow> upload_item" where
  "upload_item_of j = \<lparr>ui_path = str_field j ''path'', ui_content = str_field j ''content''\<rparr>"

definition upload_put ::
  "string \<Rightarrow> string \<Rightarrow> string \<Rightarrow> string option \<Rightarrow> string option \<Rightarrow> upload_item \<Rightarrow> request" where
  "upload_put token owner repo message branch file =
     \<lparr>verb = PUT, url = contents_url owner repo (ui_path file),
      headers = gh_headers_json token,
      payload = Some (stringify
        [(''message'', Some (JStr (or_else message (''Upload '' @ ui_path file)))),
         (''content'', Some (JStr (ui_content file))),
         (''branch'', Some (JStr (or_else branch ''main'')))])\<rparr>"

text \<open>
  The entry of \<open>results\<close> for one file: what the function given to \<^verbatim>\<open>files.map\<close> returns for
  the outcome of its \<^verbatim>\<open>fetch\<close>. Its \<^verbatim>\<open>try\<close> block turns a rejected \<^verbatim>\<open>fetch\<close> into a failed entry.
\<close>

definition upload_entry :: "upload_item \<Rightarrow> fetch_result \<Rightarrow> json" where
  "upload_entry file r =
     (case r of
        Rejected m \<Rightarrow>
          JObj [(''path'', JStr (ui_path file)), (''success'', JBool False), (''error'', JStr m)]
      | Responded githubResponse \<Rightarrow>
          if \<not> ok githubResponse
          then JObj [(''path'', JStr (ui_path file)), (''success'', JBool False),
                     (''error'', JStr (rtext githubResponse))]
          else JObj [(''path'', JStr (ui_path file)), (''success'', JBool True)])"

text \<open>
  \<^verbatim>\<open>Promise.all(files.map(async (file) => ...))\<close>: every file's \<^verbatim>\<open>fetch\<close> is issued, in the
  order of the list, and \<open>results\<close> holds the entries in that order. The requests are in
  flight together; the oracle, which may answer each of them in any way, covers every
  order of completion.
\<close>

fun upload_all ::
  "upstream \<Rightarrow> string \<Rightarrow> string \<Rightarrow> string \<Rightarrow> string option \<Rightarrow> string option \<Rightarrow> call list
     \<Rightarrow> upload_item list \<Rightarrow> json list \<times> call list" where
  "upload_all up token owner repo message branch log [] = ([], log)"
| "upload_all up token owner repo message branch log (file # files) =
     (case fetch up log (upload_put token owner repo message branch file) of
        (r, log1) \<Rightarrow>
     (case upload_all up token owner repo message branch log1 files of
        (results, log2) \<Rightarrow> (upload_entry file r # results, log2)))"

text \<open>
  The timeline of that statement. \<^verbatim>\<open>files.map\<close> calls the \<^verbatim>\<open>async\<close> function once per file,
  in the order of the list; each call runs up to its \<^verbatim>\<open>await fetch(...)\<close>, which issues the
  request, and hands back a promise. Every request is therefore issued before the handler
  awaits \<^verbatim>\<open>Promise.all\<close>, and the promises settle afterwards, in an order the program does
  not fix; the timeline lists them in the order of the list.
\<close>

fun settled :: "call list \<Rightarrow> event list" where
  "settled [] = []"
| "settled (Fetch rq r # cs) = Settled rq r # settled cs"
| "settled (c # cs) = settled cs"

definition upload_timeline ::
  "upstream \<Rightarrow> string \<Rightarrow> string \<Rightarrow> string \<Rightarrow> string option \<Rightarrow> string option \<Rightarrow> call list
     \<Rightarrow> upload_item list \<Rightarrow> event list" where
  "upload_timeline up token owner repo message branch log files =
     map (\<lambda>file. Issued (upload_put token owner repo message branch file)) files
     @ settled (drop (length log)
         (snd (upload_all up token owner repo message branch log files)))"

definition upload_files_run ::
  "upstream \<Rightarrow> session \<Rightarrow> string \<Rightarrow> string \<Rightarrow> upload_item list \<Rightarrow> string option \<Rightarrow> string option
     \<Rightarrow> reply \<times> call list" where
  "upload_files_run up s owner repo files message branch =
     (case auth_user s of
        None \<Rightarrow> (error_reply 401 ''Unauthorized'', [AuthGetUser])
      | Some uid \<Rightarrow>
     (let log0 = [AuthGetUser, SelectProfile uid ''github_access_token, github_username''] in
      case truthy_token (profiles_row s) of
        None \<Rightarrow> (error_reply 403 ''GitHub profile not found'', log0)
      | Some token \<Rightarrow>
     (case truthy_username (profiles_row s) of
        None \<Rightarrow> (error_reply 403 ''GitHub profile not found'', log0)
      | Some username \<Rightarrow>
     (if owner \<noteq> username
      then (error_reply 403 ''Unauthorized: can only access your own repositories'', log0)
      else case upload_all up token owner repo message branch log0 files of
        (results, log1) \<Rightarrow>
     (let successCount = length (filter (\<lambda>r. truthy (opt_prop (Some r) ''success'')) results)
      in (respond 200 (JObj
            [(''success'', JBool True),
             (''results'', JArr results),
             (''summary'', JObj
                [(''total'', JNum (int (length files))),
                 (''successful'', JNum (int successCount)),
                 (''failed'', JNum (int (length files) - int successCount))])]),
          log1))))))"

definition upload_files :: "upstream \<Rightarrow> session \<Rightarrow> inbound \<Rightarrow> reply \<times> call list" where
  "upload_files up s req =
     (if http_method req = ''OPTIONS'' then (preflight, [])
      else case body_json req of
        None \<Rightarrow> (caught SyntaxError, [])
      | Some body \<Rightarrow>
     (case safeParse uploadFilesSchema body of
        Inl issues \<Rightarrow> (invalid_input issues, [])
      | Inr d \<Rightarrow>
          upload_files_run up s (str_field d ''owner'') (str_field d ''repo'')
            (map upload_item_of (arr_field d ''files'')) (opt_str_field d ''message'')
            (opt_str_field d ''branch'')))"

section \<open>delete-file\<close>

text \<open>
  Modelled from the spec: the module \<^verbatim>\<open>_shared/github-helper.ts\<close> is not among the sources.
  Its \<^verbatim>\<open>getGitHubToken(req)\<close> is the spec's credential resolver, which "returns the caller's
  stored upstream access token and upstream account identifier, or signals absence"; the
  handlers read the fields \<^verbatim>\<open>github_access_token\<close> and \<^verbatim>\<open>github_username\<close> of what it returns.
  Its result is a parameter of the handlers that call it.
\<close>

record credential =
  access_token :: string
  account :: string

definition deleteFileSchema :: zschema where
  "deleteFileSchema = ZObject
     [(''owner'', owner_schema),
      (''repo'', repo_schema ''Invalid repo name''),
      (''path'', path_schema),
      (''sha'', ZString [Min 1, Max 100]),
      (''branch'', ZOptional (ZString [Min 1, Max 255])),
      (''type'', ZOptional (ZEnum [''file'', ''dir'']))]"

text \<open>
  \<^verbatim>\<open>treeData.tree.filter((item) => !item.path.startsWith(pathPrefix) && item.path !== path)\<close>
  for one item: whether it is kept, or the \<^verbatim>\<open>TypeError\<close> raised when \<^verbatim>\<open>item\<close> is \<^verbatim>\<open>null\<close> or
  \<^verbatim>\<open>item.path\<close> is not a string.
\<close>

definition keep_item :: "string \<Rightarrow> string \<Rightarrow> json \<Rightarrow> exn + bool" where
  "keep_item pathPrefix path item =
     (case get_prop (Some item) ''path'' of
        Inl e \<Rightarrow> Inl e
      | Inr (Some (JStr p)) \<Rightarrow> Inr (\<not> startsWith p pathPrefix \<and> p \<noteq> path)
      | Inr v \<Rightarrow> Inl TypeError)"

fun filter_items :: "string \<Rightarrow> string \<Rightarrow> json list \<Rightarrow> exn + json list" where
  "filter_items pathPrefix path [] = Inr []"
| "filter_items pathPrefix path (item # items) =
     (case keep_item pathPrefix path item of
        Inl e \<Rightarrow> Inl e
      | Inr keep \<Rightarrow>
     (case filter_items pathPrefix path items of
        Inl e \<Rightarrow> Inl e
      | Inr kept \<Rightarrow> Inr (if keep then item # kept else kept)))"

text \<open>\<^verbatim>\<open>.map((item) => ({path: item.path, mode: item.mode, type: item.type, sha: item.sha}))\<close>\<close>

definition tree_entry :: "json \<Rightarrow> json" where
  "tree_entry item = stringify
     [(''path'', opt_prop (Some item) ''path''),
      (''mode'', opt_prop (Some item) ''mode''),
      (''type'', opt_prop (Some item) ''type''),
      (''sha'', opt_prop (Some item) ''sha'')]"

text \<open>
  \<open>newTree\<close> from the parsed body of the tree response:
  \<^verbatim>\<open>pathPrefix = path.endsWith('/') ? path : `${path}/`\<close>, then the filter and the map.
  \<^verbatim>\<open>treeData.tree\<close> must be an array.
\<close>

definition new_tree :: "string \<Rightarrow> json \<Rightarrow> exn + json list" where
  "new_tree path treeData =
     (let pathPrefix = (if endsWith path ''/'' then path else path @ ''/'') in
      case get_prop (Some treeData) ''tree'' of
        Inl e \<Rightarrow> Inl e
      | Inr (Some (JArr items)) \<Rightarrow>
          (case filter_items pathPrefix path items of
             Inl e \<Rightarrow> Inl e
           | Inr kept \<Rightarrow> Inr (map tree_entry kept))
      | Inr v \<Rightarrow> Inl TypeError)"

text \<open>\<^verbatim>\<open>data.a.b\<close>: two property reads, either of which may throw.\<close>

definition get_prop2 :: "json \<Rightarrow> string \<Rightarrow> string \<Rightarrow> exn + jsval" where
  "get_prop2 data a b =
     (case get_prop (Some data) a of Inl e \<Rightarrow> Inl e | Inr v \<Rightarrow> get_prop v b)"

text \<open>An array element or object property written by \<^verbatim>\<open>JSON.stringify\<close> inside an array.\<close>

definition or_null :: "jsval \<Rightarrow> json" where
  "or_null v = (case v of None \<Rightarrow> JNull | Some j \<Rightarrow> j)"

definition git_url :: "string \<Rightarrow> string \<Rightarrow> string \<Rightarrow> string" where
  "git_url owner repo rest = repo_url owner repo @ ''/git/'' @ rest"

text \<open>The directory branch (\<^verbatim>\<open>type === 'dir'\<close>): six upstream calls, each fed by the one before.\<close>

definition delete_dir ::
  "upstream \<Rightarrow> call list \<Rightarrow> string \<Rightarrow> string \<Rightarrow> string \<Rightarrow> string \<Rightarrow> string
     \<Rightarrow> reply \<times> call list" where
  "delete_dir up log0 token owner repo path branchName =
     (case fetch up log0
             \<lparr>verb = GET, url = git_url owner repo (''refs/heads/'' @ branchName),
              headers = gh_headers token, payload = None\<rparr> of
        (Rejected m, log1) \<Rightarrow> (caught (FetchError m), log1)
      | (Responded refResponse, log1) \<Rightarrow>
     (if \<not> ok refResponse
      then (relay_error (status refResponse) ''Failed to get branch reference'', log1)
      else case json_body refResponse of
        None \<Rightarrow> (caught SyntaxError, log1)
      | Some refData \<Rightarrow>
     (case get_prop2 refData ''object'' ''sha'' of
        Inl e \<Rightarrow> (caught e, log1)
      | Inr currentCommitSha \<Rightarrow>
     (case fetch up log1
             \<lparr>verb = GET, url = git_url owner repo (''commits/'' @ template currentCommitSha),
              headers = gh_headers token, payload = None\<rparr> of
        (Rejected m, log2) \<Rightarrow> (caught (FetchError m), log2)
      | (Responded commitResponse, log2) \<Rightarrow>
     (if \<not> ok commitResponse
      then (relay_error (status commitResponse) ''Failed to get commit'', log2)
      else case json_body commitResponse of
        None \<Rightarrow> (caught SyntaxError, log2)
      | Some commitData \<Rightarrow>
     (case get_prop2 commitData ''tree'' ''sha'' of
        Inl e \<Rightarrow> (caught e, log2)
      | Inr baseTreeSha \<Rightarrow>
     (case fetch up log2
             \<lparr>verb = GET,
              url = git_url owner repo (''trees/'' @ template baseTreeSha @ ''?recursive=1''),
              headers = gh_headers token, payload = None\<rparr> of
        (Rejected m, log3) \<Rightarrow> (caught (FetchError m), log3)
      | (Responded treeResponse, log3) \<Rightarrow>
     (if \<not> ok treeResponse
      then (relay_error (status treeResponse) ''Failed to get tree'', log3)
      else case json_body treeResponse of
        None \<Rightarrow> (caught SyntaxError, log3)
      | Some treeData \<Rightarrow>
     (case new_tree path treeData of
        Inl e \<Rightarrow> (caught e, log3)
      | Inr newTree \<Rightarrow>
     (case fetch up log3
             \<lparr>verb = POST, url = git_url owner repo ''trees'',
              headers = gh_headers_json token,
              payload = Some (JObj [(''tree'', JArr newTree)])\<rparr> of
        (Rejected m, log4) \<Rightarrow> (caught (FetchError m), log4)
      | (Responded newTreeResponse, log4) \<Rightarrow>
     (if \<not> ok newTreeResponse
      then (relay_error (status newTreeResponse) ''Failed to create new tree'', log4)
      else case json_body newTreeResponse of
        None \<Rightarrow> (caught SyntaxError, log4)
      | Some newTreeData \<Rightarrow>
     (case get_prop (Some newTreeData) ''sha'' of
        Inl e \<Rightarrow> (caught e, log4)
      | Inr newTreeSha \<Rightarrow>
     (case fetch up log4
             \<lparr>verb = POST, url = git_url owner repo ''commits'',
              headers = gh_headers_json token,
              payload = Some (stringify
                [(''message'', Some (JStr (''Delete directory '' @ path))),
                 (''tree'', newTreeSha),
                 (''parents'', Some (JArr [or_null currentCommitSha]))])\<rparr> of
        (Rejected m, log5) \<Rightarrow> (caught (FetchError m), log5)
      | (Responded newCommitResponse, log5) \<Rightarrow>
     (if \<not> ok newCommitResponse
      then (relay_error (status newCommitResponse) ''Failed to create commit'', log5)
      else case json_body newCommitResponse of
        None \<Rightarrow> (caught SyntaxError, log5)
      | Some newCommitData \<Rightarrow>
     (case get_prop (Some newCommitData) ''sha'' of
        Inl e \<Rightarrow> (caught e, log5)
      | Inr newCommitSha \<Rightarrow>
     (case fetch up log5
             \<lparr>verb = PATCH, url = git_url owner repo (''refs/heads/'' @ branchName),
              headers = gh_headers_json token,
              payload = Some (stringify [(''sha'', newCommitSha)])\<rparr> of
        (Rejected m, log6) \<Rightarrow> (caught (FetchError m), log6)
      | (Responded updateRefResponse, log6) \<Rightarrow>
     (if \<not> ok updateRefResponse
      then (relay_error (status updateRefResponse) ''Failed to update branch'', log6)
      else (success_reply, log6))))))))))))))))))"

text \<open>The file branch: one \<^verbatim>\<open>DELETE\<close> on the contents API.\<close>

definition delete_blob ::
  "upstream \<Rightarrow> call list \<Rightarrow> string \<Rightarrow> string \<Rightarrow> string \<Rightarrow> string \<Rightarrow> string \<Rightarrow> string option
     \<Rightarrow> reply \<times> call list" where
  "delete_blob up log0 token owner repo path sha branch =
     (case fetch up log0
             \<lparr>verb = DELETE, url = contents_url owner repo path,
              headers = gh_headers_json token,
              payload = Some (stringify
                [(''message'', Some (JStr (''Delete '' @ path))),
                 (''sha'', Some (JStr sha)),
                 (''branch'', (case branch of None \<Rightarrow> None
                               | Some b \<Rightarrow> if b = [] then None else Some (JStr b)))])\<rparr> of
        (Rejected m, log1) \<Rightarrow> (caught (FetchError m), log1)
      | (Responded githubResponse, log1) \<Rightarrow>
     (if \<not> ok githubResponse
      then (relay_error (status githubResponse) ''Failed to delete file on GitHub'', log1)
      else (success_reply, log1)))"

definition delete_file_run ::
  "credential option \<Rightarrow> upstream \<Rightarrow> string \<Rightarrow> string \<Rightarrow> string \<Rightarrow> string \<Rightarrow> string option
     \<Rightarrow> string option \<Rightarrow> reply \<times> call list" where
  "delete_file_run getGitHubToken up owner repo path sha branch type =
     (case getGitHubToken of
        None \<Rightarrow> (error_reply 401 ''Unauthorized'', [GetGitHubToken])
      | Some profile \<Rightarrow>
     (if owner \<noteq> account profile
      then (error_reply 403 ''Unauthorized: can only access your own repositories'',
            [GetGitHubToken])
      else if type = Some ''dir''
      then delete_dir up [GetGitHubToken] (access_token profile) owner repo path
             (or_else branch ''main'')
      else delete_blob up [GetGitHubToken] (access_token profile) owner repo path sha branch))"

definition delete_file ::
  "credential option \<Rightarrow> upstream \<Rightarrow> inbound \<Rightarrow> reply \<times> call list" where
  "delete_file getGitHubToken up req =
     (if http_method req = ''OPTIONS'' then (preflight, [])
      else case body_json req of
        None \<Rightarrow> (caught SyntaxError, [])
      | Some body \<Rightarrow>
     (case safeParse deleteFileSchema body of
        Inl issues \<Rightarrow> (invalid_input issues, [])
      | Inr d \<Rightarrow>
          delete_file_run getGitHubToken up (str_field d ''owner'') (str_field d ''repo'')
            (str_field d ''path'') (str_field d ''sha'') (opt_str_field d ''branch'')
            (opt_str_field d ''type'')))"


section \<open>sync-repo-contents\<close>

definition syncRepoSchema :: zschema where
  "syncRepoSchema = ZObject
     [(''sourceRepo'', repo_schema ''Invalid source repo name''),
      (''destRepo'', repo_schema ''Invalid dest repo name''),
      (''sourceBranch'', branch_schema ''Invalid source branch''),
      (''destBranch'', branch_schema ''Invalid dest branch'')]"

text \<open>
  Modelled from the spec: \<^verbatim>\<open>createOrGetBranch\<close> of the absent module
  \<^verbatim>\<open>_shared/github-helper.ts\<close> is the spec's "explicit create-or-get step" for the
  destination branch. The handler reads \<^verbatim>\<open>success\<close> and \<^verbatim>\<open>error\<close> of its result; the result is
  a parameter (a function of the log so far), and the call is logged as one event.
\<close>

record branch_result =
  br_success :: bool
  br_error :: string

text \<open>
  \<^verbatim>\<open>validateRepo(repo)\<close>: the exception it throws, if any. The \<^verbatim>\<open>try\<close> around both
  validations turns any exception into a 403 response with the exception's message.
\<close>

definition validateRepo ::
  "upstream \<Rightarrow> call list \<Rightarrow> string \<Rightarrow> string \<Rightarrow> string \<Rightarrow> exn option \<times> call list" where
  "validateRepo up log githubToken owner repo =
     (case fetch up log
             \<lparr>verb = GET, url = repo_url owner repo, headers = gh_headers githubToken,
              payload = None\<rparr> of
        (Rejected m, log1) \<Rightarrow> (Some (FetchError m), log1)
      | (Responded response, log1) \<Rightarrow>
     (if \<not> ok response
      then (Some (Error (''Repository '' @ repo @ '' not found or not accessible'')), log1)
      else case json_body response of
        None \<Rightarrow> (Some SyntaxError, log1)
      | Some repoData \<Rightarrow>
     (case get_prop2 repoData ''owner'' ''login'' of
        Inl e \<Rightarrow> (Some e, log1)
      | Inr login \<Rightarrow>
          if login \<noteq> Some (JStr owner)
          then (Some (Error (''Repository '' @ repo @ '' does not belong to user '' @ owner)),
                log1)
          else (None, log1))))"

text \<open>\<^verbatim>\<open>treeData.tree.filter((item) => item.type === 'blob')\<close>\<close>

fun blob_items :: "json list \<Rightarrow> exn + json list" where
  "blob_items [] = Inr []"
| "blob_items (item # items) =
     (case get_prop (Some item) ''type'' of
        Inl e \<Rightarrow> Inl e
      | Inr t \<Rightarrow>
     (case blob_items items of
        Inl e \<Rightarrow> Inl e
      | Inr kept \<Rightarrow> Inr (if t = Some (JStr ''blob'') then item # kept else kept)))"

definition tree_blobs :: "json \<Rightarrow> exn + json list" where
  "tree_blobs treeData =
     (case get_prop (Some treeData) ''tree'' of
        Inl e \<Rightarrow> Inl e
      | Inr (Some (JArr items)) \<Rightarrow> blob_items items
      | Inr v \<Rightarrow> Inl TypeError)"

text \<open>The three requests for one file of the source tree, \<open>path\<close> being \<^verbatim>\<open>`${file.path}`\<close>.\<close>

definition sync_get :: "string \<Rightarrow> string \<Rightarrow> string \<Rightarrow> string \<Rightarrow> string \<Rightarrow> request" where
  "sync_get githubToken owner sourceRepo sourceBranch path =
     \<lparr>verb = GET, url = contents_url owner sourceRepo path @ ''?ref='' @ sourceBranch,
      headers = gh_headers githubToken, payload = None\<rparr>"

definition sync_check :: "string \<Rightarrow> string \<Rightarrow> string \<Rightarrow> string \<Rightarrow> string \<Rightarrow> request" where
  "sync_check githubToken owner destRepo destBranch path =
     \<lparr>verb = GET, url = contents_url owner destRepo path @ ''?ref='' @ destBranch,
      headers = gh_headers githubToken, payload = None\<rparr>"

text \<open>
  The spread \<^verbatim>\<open>...(fileExists && existingFile?.sha ? { sha: existingFile.sha } : {})\<close>:
  the value of the \<^verbatim>\<open>sha\<close> property of the write, \<^verbatim>\<open>undefined\<close> when the property is absent.
\<close>

definition existing_sha :: "bool \<Rightarrow> json \<Rightarrow> jsval" where
  "existing_sha fileExists existingFile =
     (if fileExists \<and> truthy (opt_prop (Some existingFile) ''sha'')
      then opt_prop (Some existingFile) ''sha'' else None)"

definition sync_put ::
  "string \<Rightarrow> string \<Rightarrow> string \<Rightarrow> string \<Rightarrow> string \<Rightarrow> string \<Rightarrow> string \<Rightarrow> jsval \<Rightarrow> jsval
     \<Rightarrow> request" where
  "sync_put githubToken owner sourceRepo destRepo sourceBranch destBranch path content sha =
     \<lparr>verb = PUT, url = contents_url owner destRepo path,
      headers = gh_headers_json githubToken,
      payload = Some (stringify
        [(''message'', Some (JStr (''Sync: Merged '' @ path @ '' from '' @ sourceRepo @ '':''
                                   @ sourceBranch))),
         (''content'', content),
         (''branch'', Some (JStr destBranch)),
         (''sha'', sha)])\<rparr>"

text \<open>
  The body of \<^verbatim>\<open>for (const file of files.slice(0, MAX_FILES))\<close> for one file: whether
  \<open>syncedCount\<close> is incremented, and the log. Every exception raised inside is caught by the
  loop's own \<^verbatim>\<open>try\<close> and the loop goes on to the next file.
\<close>

definition sync_file ::
  "upstream \<Rightarrow> string \<Rightarrow> string \<Rightarrow> string \<Rightarrow> string \<Rightarrow> string \<Rightarrow> string \<Rightarrow> call list \<Rightarrow> json
     \<Rightarrow> bool \<times> call list" where
  "sync_file up githubToken owner sourceRepo destRepo sourceBranch destBranch log file =
     (case get_prop (Some file) ''path'' of
        Inl e \<Rightarrow> (False, log)
      | Inr filePath \<Rightarrow>
     (let path = template filePath in
      case fetch up log (sync_get githubToken owner sourceRepo sourceBranch path) of
        (Rejected m, log1) \<Rightarrow> (False, log1)
      | (Responded fileResponse, log1) \<Rightarrow>
     (if \<not> ok fileResponse then (False, log1)
      else case json_body fileResponse of
        None \<Rightarrow> (False, log1)
      | Some fileData \<Rightarrow>
     (case fetch up log1 (sync_check githubToken owner destRepo destBranch path) of
        (Rejected m, log2) \<Rightarrow> (False, log2)
      | (Responded checkResponse, log2) \<Rightarrow>
     (let fileExists = ok checkResponse in
      case (if fileExists then json_body checkResponse else Some JNull) of
        None \<Rightarrow> (False, log2)
      | Some existingFile \<Rightarrow>
     (case get_prop (Some fileData) ''content'' of
        Inl e \<Rightarrow> (False, log2)
      | Inr content \<Rightarrow>
     (case fetch up log2
             (sync_put githubToken owner sourceRepo destRepo sourceBranch destBranch path
                content (existing_sha fileExists existingFile)) of
        (Rejected m, log3) \<Rightarrow> (False, log3)
      | (Responded uploadResponse, log3) \<Rightarrow> (ok uploadResponse, log3))))))))"

fun sync_loop ::
  "upstream \<Rightarrow> string \<Rightarrow> string \<Rightarrow> string \<Rightarrow> string \<Rightarrow> string \<Rightarrow> string \<Rightarrow> call list
     \<Rightarrow> json list \<Rightarrow> nat \<Rightarrow> nat \<times> call list" where
  "sync_loop up githubToken owner sourceRepo destRepo sourceBranch destBranch log [] syncedCount =
     (syncedCount, log)"
| "sync_loop up githubToken owner sourceRepo destRepo sourceBranch destBranch log (file # files)
     syncedCount =
     (case sync_file up githubToken owner sourceRepo destRepo sourceBranch destBranch log file of
        (synced, log1) \<Rightarrow>
          sync_loop up githubToken owner sourceRepo destRepo sourceBranch destBranch log1 files
            (if synced then syncedCount + 1 else syncedCount))"

definition MAX_FILES :: nat where
  "MAX_FILES = 100"

definition token_expired :: string where
  "token_expired =
     ''Your GitHub token is invalid or has expired. Please log out and log back in.''"

definition sync_tree_get :: "string \<Rightarrow> string \<Rightarrow> string \<Rightarrow> string \<Rightarrow> request" where
  "sync_tree_get githubToken owner sourceRepo sourceBranch =
     \<lparr>verb = GET, url = git_url owner sourceRepo (''trees/'' @ sourceBranch @ ''?recursive=1''),
      headers = gh_headers githubToken, payload = None\<rparr>"

definition sync_run ::
  "credential option \<Rightarrow> (call list \<Rightarrow> branch_result) \<Rightarrow> upstream
     \<Rightarrow> string \<Rightarrow> string \<Rightarrow> string \<Rightarrow> string \<Rightarrow> reply \<times> call list" where
  "sync_run getGitHubToken createOrGetBranch up sourceRepo destRepo sourceBranch destBranch =
     (case getGitHubToken of
        None \<Rightarrow> (error_reply 401 token_expired, [GetGitHubToken])
      | Some profile \<Rightarrow>
     (let githubToken = access_token profile; owner = account profile in
      case validateRepo up [GetGitHubToken] githubToken owner sourceRepo of
        (Some e, log1) \<Rightarrow> (\<lparr>code = 403, rbody = CaughtError e\<rparr>, log1)
      | (None, log1) \<Rightarrow>
     (case validateRepo up log1 githubToken owner destRepo of
        (Some e, log2) \<Rightarrow> (\<lparr>code = 403, rbody = CaughtError e\<rparr>, log2)
      | (None, log2) \<Rightarrow>
     (let branchResult = createOrGetBranch log2;
          log3 = log2 @ [CreateOrGetBranch owner destRepo destBranch] in
      if \<not> br_success branchResult
      then (error_reply 400
              (''Failed to create/access destination branch: '' @ br_error branchResult), log3)
      else case fetch up log3 (sync_tree_get githubToken owner sourceRepo sourceBranch) of
        (Rejected m, log4) \<Rightarrow> (caught (FetchError m), log4)
      | (Responded treeResponse, log4) \<Rightarrow>
     (if \<not> ok treeResponse
      then (if status treeResponse = 401 then (error_reply 401 token_expired, log4)
            else (caught (Error
                    ''Failed to fetch source repository tree. Please verify the branch exists.''),
                  log4))
      else case json_body treeResponse of
        None \<Rightarrow> (caught SyntaxError, log4)
      | Some treeData \<Rightarrow>
     (case tree_blobs treeData of
        Inl e \<Rightarrow> (caught e, log4)
      | Inr files \<Rightarrow>
     (case sync_loop up githubToken owner sourceRepo destRepo sourceBranch destBranch log4
             (take MAX_FILES files) 0 of
        (syncedCount, log5) \<Rightarrow>
          (respond 200 (JObj
             [(''success'', JBool True),
              (''files_synced'', JNum (int syncedCount)),
              (''total_files'', JNum (int (length files)))]),
           log5))))))))"

definition sync_repo_contents ::
  "credential option \<Rightarrow> (call list \<Rightarrow> branch_result) \<Rightarrow> upstream \<Rightarrow> inbound
     \<Rightarrow> reply \<times> call list" where
  "sync_repo_contents getGitHubToken createOrGetBranch up req =
     (if http_method req = ''OPTIONS'' then (preflight, [])
      else case body_json req of
        None \<Rightarrow> (caught SyntaxError, [])
      | Some body \<Rightarrow>
     (case safeParse syncRepoSchema body of
        Inl issues \<Rightarrow> (invalid_input issues, [])
      | Inr d \<Rightarrow>
          sync_run getGitHubToken createOrGetBranch up (str_field d ''sourceRepo'')
            (str_field d ''destRepo'') (str_field d ''sourceBranch'')
            (str_field d ''destBranch'')))"

section \<open>Notions used in the statements\<close>

text \<open>The upstream requests of a log, in the order they were issued.\<close>

primrec requests :: "call list \<Rightarrow> request list" where
  "requests [] = []"
| "requests (c # cs) = (case c of Fetch rq r \<Rightarrow> rq # requests cs | _ \<Rightarrow> requests cs)"

definition verb_url :: "request \<Rightarrow> verb \<times> string" where
  "verb_url rq = (verb rq, url rq)"

text \<open>What a request sent: its method, its URL and its body.\<close>

definition sent :: "request \<Rightarrow> verb \<times> string \<times> json option" where
  "sent rq = (verb rq, url rq, payload rq)"

text \<open>An inbound \<^verbatim>\<open>POST\<close> whose body parsed as JSON.\<close>

definition post :: "json \<Rightarrow> inbound" where
  "post body = \<lparr>http_method = ''POST'', body_json = Some body\<rparr>"

subsection \<open>Requests in flight\<close>


text \<open>
  The requests in flight after a timeline: those issued and not yet settled. A timeline
  runs one request at a time when at no moment of it two requests are in flight.
\<close>

definition advance :: "request list \<Rightarrow> event \<Rightarrow> request list" where
  "advance pending e =
     (case e of Issued rq \<Rightarrow> pending @ [rq] | Settled rq r \<Rightarrow> remove1 rq pending)"

definition in_flight :: "event list \<Rightarrow> request list" where
  "in_flight line = foldl advance [] line"

definition one_at_a_time :: "event list \<Rightarrow> bool" where
  "one_at_a_time line =
     list_all (\<lambda>n. length (in_flight (take n line)) \<le> 1) [0..<Suc (length line)]"



subsection \<open>Concrete scenarios\<close>

text \<open>
  The caller \<open>alice\<close>: an authenticated session whose profile row stores the token \<open>tok\<close> and
  the GitHub account \<open>alice\<close>.
\<close>

definition alice :: session where
  "alice =
     \<lparr>auth_user = Some ''u1'',
      profiles_row = Some \<lparr>github_access_token = Some ''tok'', github_username = Some ''alice''\<rparr>,
      profiles_error = False\<rparr>"

text \<open>An upstream that answers every request with status 200 and a file object.\<close>

definition file_response :: response where
  "file_response =
     \<lparr>status = 200, rtext = [],
      json_body = Some (JObj [(''content'', JStr ''aGk=''), (''sha'', JStr ''abc'')])\<rparr>"

definition up_ok :: upstream where
  "up_ok log rq = Responded file_response"

text \<open>An upstream that refuses every write with status 422 and answers all else as above.\<close>

definition up_write_fails :: upstream where
  "up_write_fails log rq =
     (if verb rq = PUT
      then Responded \<lparr>status = 422, rtext = ''Unprocessable Entity'', json_body = None\<rparr>
      else Responded file_response)"

text \<open>Requests that name the repository of another account, \<open>victim\<close>.\<close>

definition rename_victim :: json where
  "rename_victim = JObj
     [(''owner'', JStr ''victim''), (''repo'', JStr ''r''), (''path'', JStr ''a.txt''),
      (''new_path'', JStr ''b.txt''), (''sha'', JStr ''abc''), (''branch'', JStr ''main'')]"

definition move_victim :: json where
  "move_victim = JObj
     [(''owner'', JStr ''victim''), (''repo'', JStr ''r''),
      (''files'', JArr [JObj [(''path'', JStr ''x/old.txt''), (''sha'', JStr ''abc''),
                              (''type'', JStr ''file'')]]),
      (''destination'', JStr ''y''), (''branch'', JStr ''main'')]"

definition create_victim :: json where
  "create_victim = JObj
     [(''owner'', JStr ''victim''), (''repo'', JStr ''r''), (''path'', JStr ''a.txt''),
      (''content'', JStr ''hi'')]"

definition rename_repo_victim :: json where
  "rename_repo_victim = JObj
     [(''owner'', JStr ''victim''), (''repo'', JStr ''r''), (''new_name'', JStr ''mine'')]"

text \<open>A rename in the caller's own repository.\<close>

definition rename_own :: json where
  "rename_own = JObj
     [(''owner'', JStr ''alice''), (''repo'', JStr ''r''), (''path'', JStr ''a.txt''),
      (''new_path'', JStr ''b.txt''), (''sha'', JStr ''abc''), (''branch'', JStr ''main'')]"

text \<open>
  A move of two files of which the first cannot be read: the upstream answers the read of
  \<open>x/missing.txt\<close> with status 404.
\<close>

definition move_two :: json where
  "move_two = JObj
     [(''owner'', JStr ''alice''), (''repo'', JStr ''r''),
      (''files'', JArr [JObj [(''path'', JStr ''x/missing.txt''), (''sha'', JStr ''000''),
                              (''type'', JStr ''file'')],
                        JObj [(''path'', JStr ''x/old.txt''), (''sha'', JStr ''abc''),
                              (''type'', JStr ''file'')]]),
      (''destination'', JStr ''y''), (''branch'', JStr ''main'')]"

definition up_first_missing :: upstream where
  "up_first_missing log rq =
     (if url rq = ''https://api.github.com/repos/alice/r/contents/x/missing.txt?ref=main''
      then Responded \<lparr>status = 404, rtext = ''Not Found'', json_body = None\<rparr>
      else Responded file_response)"

text \<open>A move of \<open>x/old.txt\<close> to \<open>y\<close> in the caller's own repository.\<close>

definition move_own :: json where
  "move_own = JObj
     [(''owner'', JStr ''alice''), (''repo'', JStr ''r''),
      (''files'', JArr [JObj [(''path'', JStr ''x/old.txt''), (''sha'', JStr ''abc''),
                              (''type'', JStr ''file'')]]),
      (''destination'', JStr ''y''), (''branch'', JStr ''main'')]"


text \<open>A body that lacks every field but \<open>owner\<close>.\<close>

definition owner_only :: json where
  "owner_only = JObj [(''owner'', JStr ''alice'')]"

text \<open>Requests whose path fields leave the repository's contents.\<close>

definition rename_traversal :: json where
  "rename_traversal = JObj
     [(''owner'', JStr ''alice''), (''repo'', JStr ''r''), (''path'', JStr ''../../r2/contents/a.txt''),
      (''new_path'', JStr ''/b.txt''), (''sha'', JStr ''abc''), (''branch'', JStr ''main'')]"

definition move_traversal :: json where
  "move_traversal = JObj
     [(''owner'', JStr ''alice''), (''repo'', JStr ''r''),
      (''files'', JArr [JObj [(''path'', JStr ''../../r2/contents/a.txt''), (''sha'', JStr ''abc''),
                              (''type'', JStr ''file'')]]),
      (''destination'', JStr ''../..''), (''branch'', JStr ''main'')]"

definition create_traversal :: json where
  "create_traversal = JObj
     [(''owner'', JStr ''alice''), (''repo'', JStr ''r''), (''path'', JStr ''../../r2/contents/a.txt''),
      (''content'', JStr ''hi'')]"

subsection \<open>Outcomes of writes\<close>

text \<open>A call to \<^verbatim>\<open>fetch\<close> failed when it was rejected or answered with a status outside 200-299.\<close>

definition failed :: "fetch_result \<Rightarrow> bool" where
  "failed r = (case r of Rejected m \<Rightarrow> True | Responded resp \<Rightarrow> \<not> ok resp)"

text \<open>
  A request is a bare write when it is a \<^verbatim>\<open>PUT\<close> whose body has the properties
  \<open>message\<close>, \<open>content\<close> and \<open>branch\<close> and no other.
\<close>

definition bare_write :: "request \<Rightarrow> bool" where
  "bare_write rq =
     (verb rq = PUT \<and>
      (case payload rq of
         Some (JObj kvs) \<Rightarrow> map fst kvs = [''message'', ''content'', ''branch'']
       | _ \<Rightarrow> False))"



subsection \<open>Tree listings\<close>

text \<open>An entry of a tree listing has a path when it is an object whose \<open>path\<close> is a string.\<close>

definition has_path :: "json \<Rightarrow> bool" where
  "has_path item = (case opt_prop (Some item) ''path'' of Some (JStr p) \<Rightarrow> True | _ \<Rightarrow> False)"

text \<open>
  The prefix that marks the entries nested under a directory: the directory's path,
  followed by \<open>/\<close> unless it already ends with one.
\<close>

definition dir_prefix :: "string \<Rightarrow> string" where
  "dir_prefix path = (if endsWith path ''/'' then path else path @ ''/'')"

definition outside_dir :: "string \<Rightarrow> json \<Rightarrow> bool" where
  "outside_dir path item =
     (str_field item ''path'' \<noteq> path \<and> \<not> startsWith (str_field item ''path'') (dir_prefix path))"

text \<open>
  The entries that the specification keeps when the directory \<open>path\<close> is deleted: those
  whose path is neither \<open>path\<close> nor prefixed by \<open>path\<close> plus \<open>/\<close>.
\<close>

definition spec_keeps :: "string \<Rightarrow> json \<Rightarrow> bool" where
  "spec_keeps path item =
     (str_field item ''path'' \<noteq> path \<and> \<not> startsWith (str_field item ''path'') (path @ ''/''))"

text \<open>
  A repository whose branch \<open>main\<close> points at commit \<open>c0\<close> with tree \<open>t0\<close>, holding the
  directory \<open>a\<close> with two files and the file \<open>e.txt\<close>. It creates the tree \<open>t1\<close> and the
  commit \<open>c1\<close> on request and accepts the update of the branch.
\<close>

definition entry :: "string \<Rightarrow> string \<Rightarrow> string \<Rightarrow> json" where
  "entry path type sha = JObj
     [(''path'', JStr path), (''mode'', JStr (if type = ''tree'' then ''040000'' else ''100644'')),
      (''type'', JStr type), (''sha'', JStr sha), (''url'', JStr ''u'')]"

definition tree0 :: "json list" where
  "tree0 = [entry ''a'' ''tree'' ''s1'', entry ''a/b.txt'' ''blob'' ''s2'',
            entry ''a/c/d.txt'' ''blob'' ''s3'', entry ''e.txt'' ''blob'' ''s4'']"

definition answer :: "nat \<Rightarrow> json \<Rightarrow> fetch_result" where
  "answer st j = Responded \<lparr>status = st, rtext = [], json_body = Some j\<rparr>"

definition up_repo :: upstream where
  "up_repo log rq =
     (if verb rq = GET \<and> url rq = ''https://api.github.com/repos/alice/r/git/refs/heads/main''
      then answer 200 (JObj [(''object'', JObj [(''sha'', JStr ''c0'')])])
      else if verb rq = GET \<and> url rq = ''https://api.github.com/repos/alice/r/git/commits/c0''
      then answer 200 (JObj [(''tree'', JObj [(''sha'', JStr ''t0'')])])
      else if verb rq = GET
              \<and> url rq = ''https://api.github.com/repos/alice/r/git/trees/t0?recursive=1''
      then answer 200 (JObj [(''sha'', JStr ''t0''), (''tree'', JArr tree0)])
      else if verb rq = POST \<and> url rq = ''https://api.github.com/repos/alice/r/git/trees''
      then answer 201 (JObj [(''sha'', JStr ''t1'')])
      else if verb rq = POST \<and> url rq = ''https://api.github.com/repos/alice/r/git/commits''
      then answer 201 (JObj [(''sha'', JStr ''c1'')])
      else if verb rq = PATCH
      then answer 200 (JObj [])
      else answer 404 (JObj []))"

definition alice_credential :: credential where
  "alice_credential = \<lparr>access_token = ''tok'', account = ''alice''\<rparr>"

definition delete_dir_a :: json where
  "delete_dir_a = JObj
     [(''owner'', JStr ''alice''), (''repo'', JStr ''r''), (''path'', JStr ''a''),
      (''sha'', JStr ''s1''), (''branch'', JStr ''main''), (''type'', JStr ''dir'')]"

definition delete_dir_a_slash :: json where
  "delete_dir_a_slash = JObj
     [(''owner'', JStr ''alice''), (''repo'', JStr ''r''), (''path'', JStr ''a/''),
      (''sha'', JStr ''s1''), (''branch'', JStr ''main''), (''type'', JStr ''dir'')]"

subsection \<open>The sync workflow\<close>

text \<open>
  What the probe of the destination found: the \<open>sha\<close> of the existing file when the probe
  was answered with success and a body that carries a truthy \<open>sha\<close>, and \<^verbatim>\<open>undefined\<close>
  (no existing file) otherwise.
\<close>

definition found_sha :: "fetch_result \<Rightarrow> jsval" where
  "found_sha res =
     (case res of
        Rejected m \<Rightarrow> None
      | Responded r \<Rightarrow>
          if ok r
          then (case json_body r of
                  None \<Rightarrow> None
                | Some j \<Rightarrow> if truthy (opt_prop (Some j) ''sha'')
                            then opt_prop (Some j) ''sha'' else None)
          else None)"

text \<open>A successful write in a log: a \<^verbatim>\<open>PUT\<close> that did not fail.\<close>

definition ok_write :: "call \<Rightarrow> bool" where
  "ok_write c = (case c of Fetch rq r \<Rightarrow> verb rq = PUT \<and> \<not> failed r | _ \<Rightarrow> False)"

definition is_blob :: "json \<Rightarrow> bool" where
  "is_blob item = (opt_prop (Some item) ''type'' = Some (JStr ''blob''))"

text \<open>
  The calls made for one file of the source tree: first the read of the file in the source
  repository, then nothing but the probe of, and the write to, the same path in the
  destination repository.
\<close>

definition calls_for ::
  "string \<Rightarrow> string \<Rightarrow> string \<Rightarrow> string \<Rightarrow> string \<Rightarrow> string \<Rightarrow> json \<Rightarrow> call list \<Rightarrow> bool" where
  "calls_for githubToken owner sourceRepo destRepo sourceBranch destBranch item seg =
     (let path = template (opt_prop (Some item) ''path'') in
      case seg of
        [] \<Rightarrow> False
      | c # rest \<Rightarrow>
          (case c of
             Fetch rq r \<Rightarrow> rq = sync_get githubToken owner sourceRepo sourceBranch path
           | _ \<Rightarrow> False)
          \<and> list_all
               (\<lambda>c. case c of
                  Fetch rq r \<Rightarrow>
                    rq = sync_check githubToken owner destRepo destBranch path
                    \<or> verb rq = PUT \<and> url rq = contents_url owner destRepo path
                | _ \<Rightarrow> False)
               rest)"

text \<open>
  The write \<open>wr\<close> at position \<open>i\<close> of a log directly follows the probe of its path on the
  destination branch, and carries as \<open>sha\<close> exactly what that probe found.
\<close>

definition probed_before :: "string \<Rightarrow> call list \<Rightarrow> nat \<Rightarrow> request \<Rightarrow> bool" where
  "probed_before destBranch log i wr =
     (0 < i \<and>
      (case log ! (i - 1) of
         Fetch probe pr \<Rightarrow>
           verb probe = GET \<and> url probe = url wr @ ''?ref='' @ destBranch
           \<and> opt_prop (payload wr) ''sha'' = found_sha pr
       | _ \<Rightarrow> False))"

definition is_write :: "call \<Rightarrow> bool" where
  "is_write c = (case c of Fetch rq r \<Rightarrow> verb rq = PUT | _ \<Rightarrow> False)"

definition writes_probed :: "string \<Rightarrow> call list \<Rightarrow> bool" where
  "writes_probed destBranch log =
     list_all (\<lambda>i. case log ! i of
                  Fetch wr res \<Rightarrow> if verb wr = PUT then probed_before destBranch log i wr else True
                | _ \<Rightarrow> True)
       [0..<length log]"

text \<open>
  A sync from \<open>alice/src\<close> (branch \<open>main\<close>) to \<open>alice/dst\<close> (branch \<open>dev\<close>). The source tree holds
  a directory and the files \<open>d/old.txt\<close> and \<open>new.txt\<close>; the destination already holds
  \<open>d/old.txt\<close> with the content hash \<open>h1\<close> and does not hold \<open>new.txt\<close>.
\<close>

definition sync_body :: json where
  "sync_body = JObj
     [(''sourceRepo'', JStr ''src''), (''destRepo'', JStr ''dst''),
      (''sourceBranch'', JStr ''main''), (''destBranch'', JStr ''dev'')]"

definition branch_ready :: "call list \<Rightarrow> branch_result" where
  "branch_ready log = \<lparr>br_success = True, br_error = []\<rparr>"

definition owned_by_alice :: json where
  "owned_by_alice = JObj [(''owner'', JObj [(''login'', JStr ''alice'')])]"

definition up_sync :: upstream where
  "up_sync log rq =
     (if verb rq = PUT then answer 201 (JObj [])
      else if url rq = ''https://api.github.com/repos/alice/src''
              \<or> url rq = ''https://api.github.com/repos/alice/dst''
      then answer 200 owned_by_alice
      else if url rq = ''https://api.github.com/repos/alice/src/git/trees/main?recursive=1''
      then answer 200 (JObj [(''tree'', JArr
             [entry ''d'' ''tree'' ''s1'', entry ''d/old.txt'' ''blob'' ''s2'',
              entry ''new.txt'' ''blob'' ''s3''])])
      else if url rq = ''https://api.github.com/repos/alice/src/contents/d/old.txt?ref=main''
      then answer 200 (JObj [(''content'', JStr ''b2xk''), (''sha'', JStr ''s2'')])
      else if url rq = ''https://api.github.com/repos/alice/src/contents/new.txt?ref=main''
      then answer 200 (JObj [(''content'', JStr ''bmV3''), (''sha'', JStr ''s3'')])
      else if url rq = ''https://api.github.com/repos/alice/dst/contents/d/old.txt?ref=dev''
      then answer 200 (JObj [(''content'', JStr ''eA==''), (''sha'', JStr ''h1'')])
      else answer 404 (JObj [(''message'', JStr ''Not Found'')]))"

text \<open>
  A source tree with one directory and 101 files, served by an upstream that answers
  every other request with status 200 and a file object.
\<close>

definition file_numbers :: "nat list" where
  "file_numbers = [0..<101]"

definition big_tree :: "json list" where
  "big_tree = entry ''d'' ''tree'' ''s0''
     # map (\<lambda>n. entry (''d/f'' @ show_nat n) ''blob'' ''s'') file_numbers"

definition up_big :: upstream where
  "up_big log rq =
     (if url rq = ''https://api.github.com/repos/alice/src''
         \<or> url rq = ''https://api.github.com/repos/alice/dst''
      then answer 200 owned_by_alice
      else if url rq = ''https://api.github.com/repos/alice/src/git/trees/main?recursive=1''
      then answer 200 (JObj [(''tree'', JArr big_tree)])
      else Responded file_response)"

section \<open>Unfolding the schemas and the validator\<close>

lemmas schema_defs = renameRepoSchema_def updateRepoSchema_def renameFileSchema_def
  moveFilesSchema_def starRepoSchema_def createFileSchema_def uploadFilesSchema_def
  deleteFileSchema_def syncRepoSchema_def owner_schema_def repo_schema_def path_schema_def
  branch_schema_def

lemmas zod_defs = parse_def safeParse_def merge_object_def merge_array_def invalid_type_def
  detail_def owner_char_def repo_char_def branch_char_def alnum_def no_traversal_def
  startsWith_def

lemmas scenario_defs = post_def alice_def alice_credential_def up_repo_def answer_def tree0_def
  entry_def delete_dir_a_def delete_dir_a_slash_def

lemmas js_defs = str_field_def opt_str_field_def arr_field_def or_else_def get_prop2_def
  template_def stringify_def or_null_def ok_def endsWith_def has_path_def outside_dir_def
  dir_prefix_def tree_entry_def git_url_def repo_url_def contents_url_def gh_headers_def
  gh_headers_json_def

section \<open>The ownership check\<close>

text \<open>
  Claim C1: every handler that performs an upstream mutation answers a request whose
  \<open>owner\<close> differs from the caller's \<open>github_username\<close> with status 403 and issues no
  upstream call. The code does not do this in rename-file and move-files: neither handler
  compares \<open>owner\<close> with anything. Caller \<open>alice\<close> renames, and moves, a file of the
  repository \<open>victim/r\<close>; each handler answers 200 \<^verbatim>\<open>{success: true}\<close> after a read, a write
  and a delete upstream. The sibling handlers create-file and rename-repo answer the same
  caller with status 403 and make no upstream call.
\<close>

theorem rename_and_move_skip_ownership_check:
  "map_option github_username (profiles_row alice) = Some (Some ''alice'')
   \<and> str_field rename_victim ''owner'' = ''victim''
   \<and> fst (rename_file up_ok alice (post rename_victim)) = success_reply
   \<and> map verb_url (requests (snd (rename_file up_ok alice (post rename_victim)))) =
       [(GET, ''https://api.github.com/repos/victim/r/contents/a.txt?ref=main''),
        (PUT, ''https://api.github.com/repos/victim/r/contents/b.txt''),
        (DELETE, ''https://api.github.com/repos/victim/r/contents/a.txt'')]
   \<and> str_field move_victim ''owner'' = ''victim''
   \<and> fst (move_files up_ok alice (post move_victim)) = success_reply
   \<and> map verb_url (requests (snd (move_files up_ok alice (post move_victim)))) =
       [(GET, ''https://api.github.com/repos/victim/r/contents/x/old.txt?ref=main''),
        (PUT, ''https://api.github.com/repos/victim/r/contents/y/old.txt''),
        (DELETE, ''https://api.github.com/repos/victim/r/contents/x/old.txt'')]
   \<and> create_file encode up_ok alice (post create_victim) =
       (error_reply 403 ''Unauthorized: can only access your own repositories'',
        [AuthGetUser, SelectProfile ''u1'' ''github_access_token, github_username''])
   \<and> rename_repo up_ok alice (post rename_repo_victim) =
       (error_reply 403 ''You can only rename your own repositories'',
        [AuthGetUser, SelectProfile ''u1'' ''github_access_token, github_username''])"
proof -
  have "create_file encode up_ok alice (post create_victim) =
       (error_reply 403 ''Unauthorized: can only access your own repositories'',
        [AuthGetUser, SelectProfile ''u1'' ''github_access_token, github_username''])"
    by (simp add: create_file_def create_file_run_def post_def create_victim_def alice_def
        truthy_token_def truthy_username_def schema_defs zod_defs str_field_def
        opt_str_field_def)
  moreover have "map_option github_username (profiles_row alice) = Some (Some ''alice'')
   \<and> str_field rename_victim ''owner'' = ''victim''
   \<and> fst (rename_file up_ok alice (post rename_victim)) = success_reply
   \<and> map verb_url (requests (snd (rename_file up_ok alice (post rename_victim)))) =
       [(GET, ''https://api.github.com/repos/victim/r/contents/a.txt?ref=main''),
        (PUT, ''https://api.github.com/repos/victim/r/contents/b.txt''),
        (DELETE, ''https://api.github.com/repos/victim/r/contents/a.txt'')]
   \<and> str_field move_victim ''owner'' = ''victim''
   \<and> fst (move_files up_ok alice (post move_victim)) = success_reply
   \<and> map verb_url (requests (snd (move_files up_ok alice (post move_victim)))) =
       [(GET, ''https://api.github.com/repos/victim/r/contents/x/old.txt?ref=main''),
        (PUT, ''https://api.github.com/repos/victim/r/contents/y/old.txt''),
        (DELETE, ''https://api.github.com/repos/victim/r/contents/x/old.txt'')]
   \<and> rename_repo up_ok alice (post rename_repo_victim) =
       (error_reply 403 ''You can only rename your own repositories'',
        [AuthGetUser, SelectProfile ''u1'' ''github_access_token, github_username''])"
    by code_simp
  ultimately show ?thesis by simp
qed

section \<open>A failed write in a batch move\<close>

text \<open>
  Claim C2: in move-files a failed read skips the item and the loop goes on, and a
  failed write leaves the old file in place because no delete is issued. The first half
  holds: when the read of \<open>x/missing.txt\<close> is answered 404, nothing else is issued for it
  and \<open>x/old.txt\<close> is moved. The second half fails on the code: the response of the write is
  awaited and never inspected, so the delete follows a write that the upstream refused
  with status 422, and the handler still answers 200. The sibling rename-file inspects
  the response of its write and returns before the delete.
\<close>

theorem move_deletes_after_failed_write:
  "up_write_fails [] (move_put ''tok'' ''alice'' ''r'' ''y'' ''main''
       \<lparr>mi_path = ''x/old.txt'', mi_sha = ''abc'', mi_type = ''file''\<rparr> (Some (JStr ''aGk='')))
     = Responded \<lparr>status = 422, rtext = ''Unprocessable Entity'', json_body = None\<rparr>
   \<and> fst (move_files up_write_fails alice (post move_own)) = success_reply
   \<and> map verb_url (requests (snd (move_files up_write_fails alice (post move_own)))) =
       [(GET, ''https://api.github.com/repos/alice/r/contents/x/old.txt?ref=main''),
        (PUT, ''https://api.github.com/repos/alice/r/contents/y/old.txt''),
        (DELETE, ''https://api.github.com/repos/alice/r/contents/x/old.txt'')]
   \<and> fst (rename_file up_write_fails alice (post rename_own)) =
       error_reply 422 ''Failed to create file at new location''
   \<and> map verb_url (requests (snd (rename_file up_write_fails alice (post rename_own)))) =
       [(GET, ''https://api.github.com/repos/alice/r/contents/a.txt?ref=main''),
        (PUT, ''https://api.github.com/repos/alice/r/contents/b.txt'')]
   \<and> fst (move_files up_first_missing alice (post move_two)) = success_reply
   \<and> map verb_url (requests (snd (move_files up_first_missing alice (post move_two)))) =
       [(GET, ''https://api.github.com/repos/alice/r/contents/x/missing.txt?ref=main''),
        (GET, ''https://api.github.com/repos/alice/r/contents/x/old.txt?ref=main''),
        (PUT, ''https://api.github.com/repos/alice/r/contents/y/old.txt''),
        (DELETE, ''https://api.github.com/repos/alice/r/contents/x/old.txt'')]"
  by code_simp

section \<open>Validation failures\<close>

text \<open>
  Claim C3: every handler answers a body that misses a required field with status 400 and
  a \<open>details\<close> array naming the field, before any network call. The handlers rename-repo,
  update-repo, rename-file, move-files and star-repo call \<^verbatim>\<open>schema.parse\<close>, whose
  \<^verbatim>\<open>ZodError\<close> reaches the handler's outer \<^verbatim>\<open>catch\<close>: the answer has status 500 and the body
  \<^verbatim>\<open>{error: message}\<close>, with no \<open>details\<close>. No call is made, whatever the session and the
  upstream. create-file, which calls \<^verbatim>\<open>safeParse\<close>, answers the same body with status 400
  and details.
\<close>

theorem parse_handlers_answer_500:
  "rename_repo up s (post owner_only) =
     (\<lparr>code = 500, rbody = CaughtError (ZodError
        [Issue [Key ''repo''] (Invalid_type ExpString ''undefined''),
         Issue [Key ''new_name''] (Invalid_type ExpString ''undefined'')])\<rparr>, [])
   \<and> update_repo up s (post owner_only) =
     (\<lparr>code = 500, rbody = CaughtError (ZodError
        [Issue [Key ''repo''] (Invalid_type ExpString ''undefined'')])\<rparr>, [])
   \<and> rename_file up s (post owner_only) =
     (\<lparr>code = 500, rbody = CaughtError (ZodError
        [Issue [Key ''repo''] (Invalid_type ExpString ''undefined''),
         Issue [Key ''path''] (Invalid_type ExpString ''undefined''),
         Issue [Key ''new_path''] (Invalid_type ExpString ''undefined''),
         Issue [Key ''sha''] (Invalid_type ExpString ''undefined'')])\<rparr>, [])
   \<and> move_files up s (post owner_only) =
     (\<lparr>code = 500, rbody = CaughtError (ZodError
        [Issue [Key ''repo''] (Invalid_type ExpString ''undefined''),
         Issue [Key ''files''] (Invalid_type ExpArray ''undefined''),
         Issue [Key ''destination''] (Invalid_type ExpString ''undefined'')])\<rparr>, [])
   \<and> star_repo up s (post owner_only) =
     (\<lparr>code = 500, rbody = CaughtError (ZodError
        [Issue [Key ''repo''] (Invalid_type ExpString ''undefined''),
         Issue [Key ''starred''] (Invalid_type ExpBoolean ''undefined'')])\<rparr>, [])
   \<and> create_file encode up s (post owner_only) =
     (\<lparr>code = 400, rbody = InvalidInput
        [(''repo'', Invalid_type ExpString ''undefined''),
         (''path'', Invalid_type ExpString ''undefined''),
         (''content'', Invalid_type ExpString ''undefined'')]\<rparr>, [])"
  by (simp add: rename_repo_def update_repo_def rename_file_def move_files_def star_repo_def
      create_file_def post_def owner_only_def schema_defs zod_defs caught_def invalid_input_def)

section \<open>Path fields\<close>

text \<open>
  Claim C4: every path-bearing field is rejected at validation when it contains \<open>..\<close> or
  starts with \<open>/\<close>, so no such value reaches an upstream URL. The schemas of rename-file
  (\<open>path\<close>, \<open>new_path\<close>) and of move-files (\<open>files[].path\<close>, \<open>destination\<close>) are plain
  \<^verbatim>\<open>z.string()\<close>: the values pass and are placed in the upstream URLs. create-file, whose
  schema carries the refinement, rejects the same path.
\<close>

theorem traversal_reaches_upstream_urls:
  "map verb_url (requests (snd (rename_file up_ok alice (post rename_traversal)))) =
       [(GET, ''https://api.github.com/repos/alice/r/contents/../../r2/contents/a.txt?ref=main''),
        (PUT, ''https://api.github.com/repos/alice/r/contents//b.txt''),
        (DELETE, ''https://api.github.com/repos/alice/r/contents/../../r2/contents/a.txt'')]
   \<and> map verb_url (requests (snd (move_files up_ok alice (post move_traversal)))) =
       [(GET, ''https://api.github.com/repos/alice/r/contents/../../r2/contents/a.txt?ref=main''),
        (PUT, ''https://api.github.com/repos/alice/r/contents/../../a.txt''),
        (DELETE, ''https://api.github.com/repos/alice/r/contents/../../r2/contents/a.txt'')]
   \<and> create_file encode up_ok alice (post create_traversal) =
       (\<lparr>code = 400, rbody = InvalidInput [(''path'', Custom ''Path traversal not allowed'')]\<rparr>, [])"
proof -
  have "create_file encode up_ok alice (post create_traversal) =
       (\<lparr>code = 400, rbody = InvalidInput [(''path'', Custom ''Path traversal not allowed'')]\<rparr>, [])"
    by (simp add: create_file_def post_def create_traversal_def schema_defs zod_defs
        invalid_input_def)
  moreover have "map verb_url (requests (snd (rename_file up_ok alice (post rename_traversal)))) =
       [(GET, ''https://api.github.com/repos/alice/r/contents/../../r2/contents/a.txt?ref=main''),
        (PUT, ''https://api.github.com/repos/alice/r/contents//b.txt''),
        (DELETE, ''https://api.github.com/repos/alice/r/contents/../../r2/contents/a.txt'')]"
    by code_simp
  moreover have "map verb_url (requests (snd (move_files up_ok alice (post move_traversal)))) =
       [(GET, ''https://api.github.com/repos/alice/r/contents/../../r2/contents/a.txt?ref=main''),
        (PUT, ''https://api.github.com/repos/alice/r/contents/../../a.txt''),
        (DELETE, ''https://api.github.com/repos/alice/r/contents/../../r2/contents/a.txt'')]"
    by code_simp
  ultimately show ?thesis by (intro conjI)
qed

section \<open>Batch upload\<close>

lemma requests_append: "requests (xs @ ys) = requests xs @ requests ys"
  by (induction xs) (auto split: call.splits)

lemma requests_map2_Fetch:
  "length rs = length rqs \<Longrightarrow> requests (map2 Fetch rqs rs) = rqs"
  by (induction rs rqs rule: list_induct2) auto

lemma upload_all_shape:
  "upload_all up token owner repo message branch log files = (results, log') \<Longrightarrow>
   \<exists>outs. length outs = length files
     \<and> log' = log @ map2 Fetch (map (upload_put token owner repo message branch) files) outs
     \<and> results = map2 upload_entry files outs"
proof (induction files arbitrary: log results log')
  case Nil
  then show ?case by simp
next
  case (Cons x xs)
  obtain r log1 where f: "fetch up log (upload_put token owner repo message branch x) = (r, log1)"
    by force
  obtain rs log2 where u: "upload_all up token owner repo message branch log1 xs = (rs, log2)"
    by force
  from Cons.prems f u have res: "results = upload_entry x r # rs" and l: "log' = log2"
    by simp_all
  from f have log1: "log1 = log @ [Fetch (upload_put token owner repo message branch x) r]"
    by (auto simp: fetch_def Let_def)
  from Cons.IH[OF u] obtain outs where o: "length outs = length xs"
     "log2 = log1 @ map2 Fetch (map (upload_put token owner repo message branch) xs) outs"
     "rs = map2 upload_entry xs outs" by blast
  show ?case
    by (rule exI[of _ "r # outs"]) (simp add: o res l log1)
qed


lemma bare_write_upload_put: "bare_write (upload_put token owner repo message branch file)"
  by (simp add: bare_write_def upload_put_def stringify_def)


lemma requests_no_fetch [simp]:
  "requests [AuthGetUser, SelectProfile uid cols] = []"
  by simp






text \<open>
  Claim C10: every upstream request of the batch upload handler is a \<^verbatim>\<open>PUT\<close> whose body
  has exactly the properties \<open>message\<close>, \<open>content\<close> and \<open>branch\<close>. It never carries \<open>sha\<close>,
  and the handler issues no other request, so it never probes the destination. This holds
  for every upstream, session and inbound request.
\<close>

theorem upload_writes_are_bare:
  "list_all bare_write (requests (snd (upload_files up s req)))"
proof -
  have run: "list_all bare_write
      (requests (snd (upload_files_run up s owner repo files message branch)))"
    for owner repo files message branch
  proof -
    have "list_all bare_write (requests (snd (upload_all up token owner repo message branch
             [AuthGetUser, SelectProfile uid cols] files)))" for token uid cols
    proof -
      obtain results log' where u: "upload_all up token owner repo message branch
             [AuthGetUser, SelectProfile uid cols] files = (results, log')"
        by force
      from upload_all_shape[OF u] obtain outs where
        "length outs = length files"
        "log' = [AuthGetUser, SelectProfile uid cols]
           @ map2 Fetch (map (upload_put token owner repo message branch) files) outs"
        by blast
      then have "requests log' = map (upload_put token owner repo message branch) files"
        by (simp add: requests_append requests_map2_Fetch)
      then show ?thesis
        using u by (simp add: list_all_iff bare_write_upload_put)
    qed
    then show ?thesis
      by (simp add: upload_files_run_def Let_def case_prod_beta split: option.splits)
  qed
  show ?thesis
    using run by (auto simp: upload_files_def split: option.splits sum.splits)
qed




section \<open>Moving files\<close>








subsection \<open>One request at a time\<close>







text \<open>
  By contrast the timeline of \<^verbatim>\<open>Promise.all(files.map(...))\<close> in upload-files has two
  requests in flight as soon as the batch holds two files.
\<close>

lemma upload_requests_overlap:
  assumes "2 \<le> length files"
  shows "\<not> one_at_a_time (upload_timeline up token owner repo message branch log files)"
proof -
  obtain f g rest where files: "files = f # g # rest"
    using assms by (cases files; cases "tl files") auto
  let ?line = "upload_timeline up token owner repo message branch log files"
  have "take 2 ?line = [Issued (upload_put token owner repo message branch f),
                        Issued (upload_put token owner repo message branch g)]"
    by (simp add: upload_timeline_def files)
  then have "length (in_flight (take 2 ?line)) = 2"
    by (simp add: in_flight_def advance_def)
  moreover have "2 \<le> length ?line"
    unfolding upload_timeline_def files by simp
  then have "2 \<in> set [0..<Suc (length ?line)]"
    by auto
  ultimately show ?thesis
    unfolding one_at_a_time_def list_all_iff by force
qed




section \<open>Deleting a directory\<close>

lemma keep_item_has_path:
  "has_path item \<Longrightarrow>
   keep_item pre path item =
     Inr (\<not> startsWith (str_field item ''path'') pre \<and> str_field item ''path'' \<noteq> path)"
  by (cases item)
     (auto simp: has_path_def keep_item_def str_field_def split: option.splits json.splits)

lemma filter_items_filter:
  "list_all has_path items \<Longrightarrow>
   filter_items (dir_prefix path) path items = Inr (filter (outside_dir path) items)"
  by (induction items) (auto simp: keep_item_has_path outside_dir_def)

lemma new_tree_filter:
  "get_prop (Some treeData) ''tree'' = Inr (Some (JArr items)) \<Longrightarrow> list_all has_path items \<Longrightarrow>
   new_tree path treeData = Inr (map tree_entry (filter (outside_dir path) items))"
  using filter_items_filter[of items path]
  by (simp add: new_tree_def dir_prefix_def Let_def)


text \<open>
  For a target path that does not end with \<open>/\<close> the handler does what the specification
  says. A directory delete (\<open>type = "dir"\<close>) whose six upstream calls are answered with
  success, over a tree listing \<open>items\<close> whose entries have a path, issues exactly: the read of
  the branch ref (whose \<open>object.sha\<close> is the tip), the read of that commit, the recursive
  read of its tree, a \<^verbatim>\<open>POST\<close> of a new tree that holds exactly the entries (path, mode,
  type, sha) of \<open>items\<close> that the specification keeps, a \<^verbatim>\<open>POST\<close> of a commit on the new
  tree's \<open>sha\<close> whose \<open>parents\<close> is the tip alone, and a \<^verbatim>\<open>PATCH\<close> of the branch ref to the
  new commit's \<open>sha\<close>; and it answers \<^verbatim>\<open>{success: true}\<close>.
\<close>

lemma delete_directory_plain_path:
  assumes "http_method req \<noteq> ''OPTIONS''"
    and "body_json req = Some body"
    and "safeParse deleteFileSchema body = Inr d"
    and "opt_str_field d ''type'' = Some ''dir''"
    and "str_field d ''owner'' = owner" and "str_field d ''repo'' = repo"
    and "str_field d ''path'' = path"
    and "or_else (opt_str_field d ''branch'') ''main'' = branchName"
    and "getGitHubToken = Some profile"
    and "account profile = owner" and "access_token profile = token"
    and "getRef = \<lparr>verb = GET, url = git_url owner repo (''refs/heads/'' @ branchName),
                    headers = gh_headers token, payload = None\<rparr>"
    and "up [GetGitHubToken] getRef = Responded refResponse"
    and "ok refResponse" and "json_body refResponse = Some refData"
    and "get_prop2 refData ''object'' ''sha'' = Inr tip"
    and "seen_ref = [GetGitHubToken, Fetch getRef (Responded refResponse)]"
    and "getCommit = \<lparr>verb = GET, url = git_url owner repo (''commits/'' @ template tip),
                       headers = gh_headers token, payload = None\<rparr>"
    and "up seen_ref getCommit = Responded commitResponse"
    and "ok commitResponse" and "json_body commitResponse = Some commitData"
    and "get_prop2 commitData ''tree'' ''sha'' = Inr baseTreeSha"
    and "seen_commit = seen_ref @ [Fetch getCommit (Responded commitResponse)]"
    and "getTree = \<lparr>verb = GET,
                     url = git_url owner repo (''trees/'' @ template baseTreeSha @ ''?recursive=1''),
                     headers = gh_headers token, payload = None\<rparr>"
    and "up seen_commit getTree = Responded treeResponse"
    and "ok treeResponse" and "json_body treeResponse = Some treeData"
    and "get_prop (Some treeData) ''tree'' = Inr (Some (JArr items))"
    and "list_all has_path items"
    and "seen_tree = seen_commit @ [Fetch getTree (Responded treeResponse)]"
    and "postTree = \<lparr>verb = POST, url = git_url owner repo ''trees'',
                      headers = gh_headers_json token,
                      payload = Some (JObj [(''tree'',
                        JArr (map tree_entry (filter (spec_keeps path) items)))])\<rparr>"
    and "up seen_tree postTree = Responded newTreeResponse"
    and "ok newTreeResponse" and "json_body newTreeResponse = Some newTreeData"
    and "get_prop (Some newTreeData) ''sha'' = Inr newTreeSha"
    and "made_tree = seen_tree @ [Fetch postTree (Responded newTreeResponse)]"
    and "postCommit = \<lparr>verb = POST, url = git_url owner repo ''commits'',
                        headers = gh_headers_json token,
                        payload = Some (stringify
                          [(''message'', Some (JStr (''Delete directory '' @ path))),
                           (''tree'', newTreeSha),
                           (''parents'', Some (JArr [or_null tip]))])\<rparr>"
    and "up made_tree postCommit = Responded newCommitResponse"
    and "ok newCommitResponse" and "json_body newCommitResponse = Some newCommitData"
    and "get_prop (Some newCommitData) ''sha'' = Inr newCommitSha"
    and "made_commit = made_tree @ [Fetch postCommit (Responded newCommitResponse)]"
    and "patchRef = \<lparr>verb = PATCH, url = git_url owner repo (''refs/heads/'' @ branchName),
                      headers = gh_headers_json token,
                      payload = Some (stringify [(''sha'', newCommitSha)])\<rparr>"
    and "up made_commit patchRef = Responded updateRefResponse"
    and "ok updateRefResponse"
    and "\<not> endsWith path ''/''"
  shows "delete_file getGitHubToken up req =
           (success_reply, made_commit @ [Fetch patchRef (Responded updateRefResponse)])"
proof -
  have "outside_dir path = spec_keeps path"
    using assms(46) by (simp add: outside_dir_def spec_keeps_def dir_prefix_def fun_eq_iff)
  then have nt: "new_tree path treeData = Inr (map tree_entry (filter (spec_keeps path) items))"
    using new_tree_filter[OF assms(28,29), of path] by simp
  have "delete_dir up [GetGitHubToken] token owner repo path branchName =
           (success_reply, made_commit @ [Fetch patchRef (Responded updateRefResponse)])"
    using assms(12-45) nt by (simp add: delete_dir_def fetch_def Let_def)
  then show ?thesis
    using assms(1-11) by (simp add: delete_file_def delete_file_run_def)
qed


text \<open>
  The instance of the specification: deleting \<open>a\<close> from the tree
  \<open>[a, a/b.txt, a/c/d.txt, e.txt]\<close> posts the tree \<open>[e.txt]\<close>, a commit whose sole parent is
  the prior tip \<open>c0\<close>, and moves the branch to the new commit \<open>c1\<close>.
\<close>

lemma delete_directory_plain_path_instance:
  "fst (delete_file (Some alice_credential) up_repo (post delete_dir_a)) = success_reply
   \<and> map sent
         (requests (snd (delete_file (Some alice_credential) up_repo (post delete_dir_a)))) =
       [(GET, ''https://api.github.com/repos/alice/r/git/refs/heads/main'', None),
        (GET, ''https://api.github.com/repos/alice/r/git/commits/c0'', None),
        (GET, ''https://api.github.com/repos/alice/r/git/trees/t0?recursive=1'', None),
        (POST, ''https://api.github.com/repos/alice/r/git/trees'',
           Some (JObj [(''tree'', JArr
             [JObj [(''path'', JStr ''e.txt''), (''mode'', JStr ''100644''),
                    (''type'', JStr ''blob''), (''sha'', JStr ''s4'')]])])),
        (POST, ''https://api.github.com/repos/alice/r/git/commits'',
           Some (JObj [(''message'', JStr ''Delete directory a''), (''tree'', JStr ''t1''),
                       (''parents'', JArr [JStr ''c0''])])),
        (PATCH, ''https://api.github.com/repos/alice/r/git/refs/heads/main'',
           Some (JObj [(''sha'', JStr ''c1'')]))]"
proof -
  let ?getRef = "\<lparr>verb = GET, url = git_url ''alice'' ''r'' (''refs/heads/'' @ ''main''),
                    headers = gh_headers ''tok'', payload = None\<rparr>"
  let ?refData = "JObj [(''object'', JObj [(''sha'', JStr ''c0'')])]"
  let ?refResponse = "\<lparr>status = 200, rtext = [], json_body = Some ?refData\<rparr>"
  let ?tip = "Some (JStr ''c0'')"
  let ?seen_ref = "[GetGitHubToken, Fetch ?getRef (Responded ?refResponse)]"
  let ?getCommit = "\<lparr>verb = GET, url = git_url ''alice'' ''r'' (''commits/'' @ template ?tip),
                       headers = gh_headers ''tok'', payload = None\<rparr>"
  let ?commitData = "JObj [(''tree'', JObj [(''sha'', JStr ''t0'')])]"
  let ?commitResponse = "\<lparr>status = 200, rtext = [], json_body = Some ?commitData\<rparr>"
  let ?base = "Some (JStr ''t0'')"
  let ?seen_commit = "?seen_ref @ [Fetch ?getCommit (Responded ?commitResponse)]"
  let ?getTree = "\<lparr>verb = GET,
                     url = git_url ''alice'' ''r'' (''trees/'' @ template ?base @ ''?recursive=1''),
                     headers = gh_headers ''tok'', payload = None\<rparr>"
  let ?treeData = "JObj [(''sha'', JStr ''t0''), (''tree'', JArr tree0)]"
  let ?treeResponse = "\<lparr>status = 200, rtext = [], json_body = Some ?treeData\<rparr>"
  let ?seen_tree = "?seen_commit @ [Fetch ?getTree (Responded ?treeResponse)]"
  let ?postTree = "\<lparr>verb = POST, url = git_url ''alice'' ''r'' ''trees'',
                      headers = gh_headers_json ''tok'',
                      payload = Some (JObj [(''tree'',
                        JArr (map tree_entry (filter (spec_keeps ''a'') tree0)))])\<rparr>"
  let ?newTreeData = "JObj [(''sha'', JStr ''t1'')]"
  let ?newTreeResponse = "\<lparr>status = 201, rtext = [], json_body = Some ?newTreeData\<rparr>"
  let ?made_tree = "?seen_tree @ [Fetch ?postTree (Responded ?newTreeResponse)]"
  let ?postCommit = "\<lparr>verb = POST, url = git_url ''alice'' ''r'' ''commits'',
                        headers = gh_headers_json ''tok'',
                        payload = Some (stringify
                          [(''message'', Some (JStr (''Delete directory '' @ ''a''))),
                           (''tree'', Some (JStr ''t1'')),
                           (''parents'', Some (JArr [or_null ?tip]))])\<rparr>"
  let ?newCommitData = "JObj [(''sha'', JStr ''c1'')]"
  let ?newCommitResponse = "\<lparr>status = 201, rtext = [], json_body = Some ?newCommitData\<rparr>"
  let ?made_commit = "?made_tree @ [Fetch ?postCommit (Responded ?newCommitResponse)]"
  let ?patchRef = "\<lparr>verb = PATCH, url = git_url ''alice'' ''r'' (''refs/heads/'' @ ''main''),
                      headers = gh_headers_json ''tok'',
                      payload = Some (stringify [(''sha'', Some (JStr ''c1''))])\<rparr>"
  let ?updateRefResponse = "\<lparr>status = 200, rtext = [], json_body = Some (JObj [])\<rparr>"
  have t: "delete_file (Some alice_credential) up_repo (post delete_dir_a) =
           (success_reply, ?made_commit @ [Fetch ?patchRef (Responded ?updateRefResponse)])"
    by (rule delete_directory_plain_path[where body = delete_dir_a and d = delete_dir_a
          and owner = "''alice''" and repo = "''r''" and path = "''a''"
          and branchName = "''main''" and profile = alice_credential and token = "''tok''"
          and getRef = ?getRef and refResponse = ?refResponse and refData = ?refData
          and tip = ?tip and seen_ref = ?seen_ref and getCommit = ?getCommit
          and commitResponse = ?commitResponse and commitData = ?commitData
          and baseTreeSha = ?base and seen_commit = ?seen_commit and getTree = ?getTree
          and treeResponse = ?treeResponse and treeData = ?treeData and items = tree0
          and seen_tree = ?seen_tree and postTree = ?postTree and newTreeResponse = ?newTreeResponse
          and newTreeData = ?newTreeData and newTreeSha = "Some (JStr ''t1'')"
          and made_tree = ?made_tree and postCommit = ?postCommit
          and newCommitResponse = ?newCommitResponse and newCommitData = ?newCommitData
          and newCommitSha = "Some (JStr ''c1'')" and made_commit = ?made_commit and patchRef = ?patchRef
          and updateRefResponse = ?updateRefResponse])
       (simp_all add: scenario_defs js_defs schema_defs zod_defs spec_keeps_def)
  show ?thesis
    unfolding t by (simp add: scenario_defs js_defs startsWith_def sent_def spec_keeps_def)
qed

text \<open>
  Claim C5 says that the tree a directory delete creates holds exactly the entries of the
  old tree whose path is neither the target directory path nor prefixed by it plus \<open>/\<close>.
  The handler normalises the target path only for the prefix test
  (\<^verbatim>\<open>path.endsWith('/') ? path : `${path}/`\<close>) and compares the path as supplied in
  \<^verbatim>\<open>item.path !== path\<close>. For the target \<open>a/\<close>, which the schema accepts, over the tree
  \<open>[a, a/b.txt, a/c/d.txt, e.txt]\<close>, it drops the two nested files and keeps the entry of the
  directory \<open>a\<close> itself, with the \<open>sha\<close> of the old subtree: the tree it posts is
  \<open>[a, e.txt]\<close>, on which it creates the commit and to which it moves the branch, and it
  answers \<^verbatim>\<open>{success: true}\<close>. The specification keeps \<open>[e.txt]\<close> for the directory \<open>a\<close>,
  which is what the handler posts for the target \<open>a\<close>; read with the path as supplied,
  \<open>a/\<close>, it keeps all four entries. The handler's tree is neither.
\<close>

theorem delete_directory_trailing_slash_keeps_directory:
  "fst (delete_file (Some alice_credential) up_repo (post delete_dir_a_slash)) = success_reply
   \<and> map sent
         (requests (snd (delete_file (Some alice_credential) up_repo (post delete_dir_a_slash)))) =
       [(GET, ''https://api.github.com/repos/alice/r/git/refs/heads/main'', None),
        (GET, ''https://api.github.com/repos/alice/r/git/commits/c0'', None),
        (GET, ''https://api.github.com/repos/alice/r/git/trees/t0?recursive=1'', None),
        (POST, ''https://api.github.com/repos/alice/r/git/trees'',
           Some (JObj [(''tree'', JArr
             [JObj [(''path'', JStr ''a''), (''mode'', JStr ''040000''),
                    (''type'', JStr ''tree''), (''sha'', JStr ''s1'')],
              JObj [(''path'', JStr ''e.txt''), (''mode'', JStr ''100644''),
                    (''type'', JStr ''blob''), (''sha'', JStr ''s4'')]])])),
        (POST, ''https://api.github.com/repos/alice/r/git/commits'',
           Some (JObj [(''message'', JStr ''Delete directory a/''), (''tree'', JStr ''t1''),
                       (''parents'', JArr [JStr ''c0''])])),
        (PATCH, ''https://api.github.com/repos/alice/r/git/refs/heads/main'',
           Some (JObj [(''sha'', JStr ''c1'')]))]
   \<and> map sent
         (requests (snd (delete_file (Some alice_credential) up_repo (post delete_dir_a)))) ! 3
       = (POST, ''https://api.github.com/repos/alice/r/git/trees'',
          Some (JObj [(''tree'', JArr
           [JObj [(''path'', JStr ''e.txt''), (''mode'', JStr ''100644''),
                  (''type'', JStr ''blob''), (''sha'', JStr ''s4'')]])]))
   \<and> filter (spec_keeps ''a'') tree0 = [entry ''e.txt'' ''blob'' ''s4'']
   \<and> filter (spec_keeps ''a/'') tree0 = tree0"
  by (simp add: delete_file_def delete_file_run_def delete_dir_def fetch_def Let_def new_tree_def
      keep_item_def schema_defs zod_defs scenario_defs js_defs sent_def spec_keeps_def)

section \<open>Synchronising a tree\<close>

lemma existing_sha_found:
  "json_body cr = Some ef \<Longrightarrow> ok cr \<Longrightarrow> existing_sha True ef = found_sha (Responded cr)"
  "\<not> ok cr \<Longrightarrow> existing_sha False JNull = found_sha (Responded cr)"
  by (simp_all add: existing_sha_def found_sha_def)

text \<open>The shapes of what one pass of the loop body appends to the log.\<close>

lemma sync_file_cases:
  assumes "sync_file up tok owner src dst sb db log item = (synced, log')"
    and "get_prop (Some item) ''path'' = Inr fp" and "path = template fp"
  shows "(\<exists>r. log' = log @ [Fetch (sync_get tok owner src sb path) r] \<and> \<not> synced)
     \<or> (\<exists>r a. log' = log @ [Fetch (sync_get tok owner src sb path) r,
                              Fetch (sync_check tok owner dst db path) a] \<and> \<not> synced)
     \<or> (\<exists>r a content w.
           log' = log @ [Fetch (sync_get tok owner src sb path) r,
                         Fetch (sync_check tok owner dst db path) a,
                         Fetch (sync_put tok owner src dst sb db path content (found_sha a)) w]
           \<and> synced = (\<not> failed w))"
proof -
  let ?g = "sync_get tok owner src sb path"
  let ?c = "sync_check tok owner dst db path"
  let ?A = "\<exists>r. log' = log @ [Fetch ?g r] \<and> \<not> synced"
  let ?B = "\<exists>r a. log' = log @ [Fetch ?g r, Fetch ?c a] \<and> \<not> synced"
  let ?C = "\<exists>r a content w.
           log' = log @ [Fetch ?g r, Fetch ?c a,
                         Fetch (sync_put tok owner src dst sb db path content (found_sha a)) w]
           \<and> synced = (\<not> failed w)"
  note defs = sync_file_def fetch_def Let_def
  show ?thesis
  proof (cases "up log ?g")
    case (Rejected m)
    with assms have ?A by (auto simp: defs)
    then show ?thesis by blast
  next
    case fr: (Responded fileResponse)
    show ?thesis
    proof (cases "ok fileResponse \<and> json_body fileResponse \<noteq> None")
      case False
      with assms fr have ?A by (auto simp: defs split: option.splits)
      then show ?thesis by blast
    next
      case True
      then obtain fileData where fd: "ok fileResponse" "json_body fileResponse = Some fileData"
        by auto
      let ?log1 = "log @ [Fetch ?g (Responded fileResponse)]"
      show ?thesis
      proof (cases "up ?log1 ?c")
        case (Rejected m)
        with assms fr fd have ?B by (auto simp: defs)
        then show ?thesis by blast
      next
        case cr: (Responded checkResponse)
        let ?log2 = "log @ [Fetch ?g (Responded fileResponse), Fetch ?c (Responded checkResponse)]"
        show ?thesis
        proof (cases "(if ok checkResponse then json_body checkResponse else Some JNull)")
          case None
          with assms fr fd cr have ?B by (auto simp: defs)
          then show ?thesis by blast
        next
          case ef: (Some existingFile)
          have sha: "existing_sha (ok checkResponse) existingFile = found_sha (Responded checkResponse)"
            using ef existing_sha_found(1)[of checkResponse existingFile]
              existing_sha_found(2)[of checkResponse]
            by (cases "ok checkResponse") auto
          show ?thesis
          proof (cases "get_prop (Some fileData) ''content''")
            case (Inl e)
            with assms fr fd cr ef have ?B by (auto simp: defs)
            then show ?thesis by blast
          next
            case (Inr content)
            let ?w = "sync_put tok owner src dst sb db path content (found_sha (Responded checkResponse))"
            have "log' = ?log2 @ [Fetch ?w (up ?log2 ?w)] \<and> synced = (\<not> failed (up ?log2 ?w))"
              using assms fr fd cr ef Inr sha
              by (cases "up ?log2 ?w") (simp_all add: defs failed_def)
            then have ?C by auto
            then show ?thesis by blast
          qed
        qed
      qed
    qed
  qed
qed


lemma writes_probedI:
  "(\<And>i wr res. i < length log \<Longrightarrow> log ! i = Fetch wr res \<Longrightarrow> verb wr = PUT
      \<Longrightarrow> probed_before db log i wr) \<Longrightarrow> writes_probed db log"
  by (auto simp: writes_probed_def list_all_iff split: call.splits)

lemma writes_probedD:
  "writes_probed db log \<Longrightarrow> i < length log \<Longrightarrow> log ! i = Fetch wr res \<Longrightarrow> verb wr = PUT
     \<Longrightarrow> probed_before db log i wr"
  unfolding writes_probed_def list_all_iff
  by (drule bspec[of _ _ i]) (simp_all split: call.splits)

lemma probed_before_append:
  "i < length log \<Longrightarrow> probed_before db (log @ seg) i wr = probed_before db log i wr"
  by (cases i) (auto simp: probed_before_def nth_append)

lemma writes_probed_no_write:
  "writes_probed db log \<Longrightarrow> list_all (\<lambda>c. \<not> is_write c) seg \<Longrightarrow> writes_probed db (log @ seg)"
proof (rule writes_probedI)
  fix i wr res
  assume wp: "writes_probed db log" and nw: "list_all (\<lambda>c. \<not> is_write c) seg"
    and i: "i < length (log @ seg)" and at: "(log @ seg) ! i = Fetch wr res" and put: "verb wr = PUT"
  show "probed_before db (log @ seg) i wr"
  proof (cases "i < length log")
    case True
    with wp at put show ?thesis
      by (simp add: probed_before_append nth_append writes_probedD)
  next
    case False
    with i at have "Fetch wr res \<in> set seg"
      by (metis add_diff_inverse_nat length_append nat_add_left_cancel_less nth_append nth_mem)
    with nw put show ?thesis
      by (auto simp: list_all_iff is_write_def)
  qed
qed

lemma sync_put_probed:
  "probed_before db
     (log @ [Fetch g r, Fetch (sync_check tok owner dst db path) a,
             Fetch (sync_put tok owner src dst sb db path content (found_sha a)) w])
     (Suc (Suc (length log))) (sync_put tok owner src dst sb db path content (found_sha a))"
  by (simp add: probed_before_def nth_append sync_check_def sync_put_def stringify_def
      split: option.splits)


lemma writes_probed_snoc:
  assumes "writes_probed db log"
    and "probed_before db (log @ [Fetch w res]) (length log) w"
  shows "writes_probed db (log @ [Fetch w res])"
proof (rule writes_probedI)
  fix i wr r
  assume i: "i < length (log @ [Fetch w res])" and at: "(log @ [Fetch w res]) ! i = Fetch wr r"
    and put: "verb wr = PUT"
  show "probed_before db (log @ [Fetch w res]) i wr"
  proof (cases "i < length log")
    case True
    with assms(1) at put show ?thesis
      by (simp add: probed_before_append nth_append writes_probedD)
  next
    case False
    with i have "i = length log" by simp
    with at assms(2) show ?thesis by simp
  qed
qed

lemma sync_file_writes_probed:
  assumes "writes_probed db log"
  shows "writes_probed db (snd (sync_file up tok owner src dst sb db log item))"
proof (cases "get_prop (Some item) ''path''")
  case (Inl e)
  with assms show ?thesis by (simp add: sync_file_def)
next
  case (Inr fp)
  let ?path = "template fp"
  let ?g = "sync_get tok owner src sb ?path"
  let ?c = "sync_check tok owner dst db ?path"
  obtain synced log' where sf: "sync_file up tok owner src dst sb db log item = (synced, log')"
    by force
  have get: "\<not> is_write (Fetch ?g r)" "\<not> is_write (Fetch ?c r)" for r
    by (simp_all add: is_write_def sync_get_def sync_check_def)
  from sync_file_cases[OF sf Inr refl]
  consider (A) r where "log' = log @ [Fetch ?g r]"
    | (B) r a where "log' = log @ [Fetch ?g r, Fetch ?c a]"
    | (C) r a content w where
        "log' = log @ [Fetch ?g r, Fetch ?c a,
                       Fetch (sync_put tok owner src dst sb db ?path content (found_sha a)) w]"
    by blast
  then have "writes_probed db log'"
  proof cases
    case A
    with assms get show ?thesis by (simp add: writes_probed_no_write)
  next
    case B
    with assms get show ?thesis by (simp add: writes_probed_no_write)
  next
    case C
    let ?w = "sync_put tok owner src dst sb db ?path content (found_sha a)"
    have two: "writes_probed db (log @ [Fetch ?g r, Fetch ?c a])"
      using assms get by (simp add: writes_probed_no_write)
    have "writes_probed db ((log @ [Fetch ?g r, Fetch ?c a]) @ [Fetch ?w w])"
      using two sync_put_probed[of db log ?g r tok owner dst ?path a src sb content w]
      by (intro writes_probed_snoc) simp_all
    with C show ?thesis by simp
  qed
  with sf show ?thesis by simp
qed

lemma sync_loop_writes_probed:
  "writes_probed db log \<Longrightarrow>
   writes_probed db (snd (sync_loop up tok owner src dst sb db log items n))"
proof (induction items arbitrary: log n)
  case Nil
  then show ?case by simp
next
  case (Cons x xs)
  obtain synced log1 where sf: "sync_file up tok owner src dst sb db log x = (synced, log1)"
    by force
  with sync_file_writes_probed[OF Cons.prems, of up tok owner src dst sb x]
  have "writes_probed db log1" by simp
  from Cons.IH[OF this] sf show ?case by simp
qed

lemma validateRepo_log:
  "\<exists>r. snd (validateRepo up log tok owner repo) =
      log @ [Fetch \<lparr>verb = GET, url = repo_url owner repo, headers = gh_headers tok,
                    payload = None\<rparr> r]"
  by (auto simp: validateRepo_def fetch_def Let_def
      split: fetch_result.splits option.splits sum.splits)

lemma validateRepo_writes_probed:
  "writes_probed db log \<Longrightarrow> writes_probed db (snd (validateRepo up log tok owner repo))"
proof -
  assume wp: "writes_probed db log"
  obtain r where "snd (validateRepo up log tok owner repo) =
      log @ [Fetch \<lparr>verb = GET, url = repo_url owner repo, headers = gh_headers tok,
                    payload = None\<rparr> r]"
    using validateRepo_log by blast
  with wp show ?thesis by (simp add: writes_probed_no_write is_write_def)
qed


lemma writes_probed_start: "writes_probed db [GetGitHubToken]"
  by (simp add: writes_probed_def)

lemma sync_run_writes_probed:
  "writes_probed db (snd (sync_run cred cob up src dst sb db))"
proof (cases cred)
  case None
  then show ?thesis by (simp add: sync_run_def writes_probed_start)
next
  case (Some profile)
  let ?tok = "access_token profile" and ?owner = "account profile"
  obtain e1 log1 where v1: "validateRepo up [GetGitHubToken] ?tok ?owner src = (e1, log1)"
    by force
  obtain e2 log2 where v2: "validateRepo up log1 ?tok ?owner dst = (e2, log2)"
    by force
  have w1: "writes_probed db log1"
    using validateRepo_writes_probed[OF writes_probed_start, of db up ?tok ?owner src] v1 by simp
  have w2: "writes_probed db log2"
    using validateRepo_writes_probed[OF w1, of up ?tok ?owner dst] v2 by simp
  let ?log3 = "log2 @ [CreateOrGetBranch ?owner dst db]"
  have w3: "writes_probed db ?log3"
    using w2 by (simp add: writes_probed_no_write is_write_def)
  let ?tree = "sync_tree_get ?tok ?owner src sb"
  have w4: "writes_probed db (?log3 @ [Fetch ?tree r])" for r
    using w2 by (simp add: writes_probed_no_write is_write_def sync_tree_get_def)
  have w5: "writes_probed db
      (snd (sync_loop up ?tok ?owner src dst sb db (?log3 @ [Fetch ?tree r]) items 0))" for r items
    using w4 by (rule sync_loop_writes_probed)
  show ?thesis
    using Some v1 v2 w1 w2 w3 w4 w5
    by (simp add: sync_run_def Let_def fetch_def case_prod_beta
        split: option.split fetch_result.split sum.split)
qed

text \<open>
  Claim C6: in every run of the sync handler, every write (\<^verbatim>\<open>PUT\<close>) in the log directly
  follows the probe of the same path on \<open>destBranch\<close>, and its body carries as \<open>sha\<close> exactly
  what that probe found: the existing file's \<open>sha\<close> when the probe was answered with success
  and a body holding one, and no \<open>sha\<close> property otherwise.
\<close>

theorem sync_write_carries_probed_sha:
  assumes "body_json req = Some body"
    and "safeParse syncRepoSchema body = Inr d"
    and "log = snd (sync_repo_contents getGitHubToken createOrGetBranch up req)"
    and "i < length log" and "log ! i = Fetch wr res" and "verb wr = PUT"
  shows "0 < i \<and>
    (\<exists>probe pr. log ! (i - 1) = Fetch probe pr \<and> verb probe = GET
        \<and> url probe = url wr @ ''?ref='' @ str_field d ''destBranch''
        \<and> opt_prop (payload wr) ''sha'' = found_sha pr)"
proof -
  have "writes_probed (str_field d ''destBranch'') log"
  proof (cases "http_method req = ''OPTIONS''")
    case True
    with assms(3) show ?thesis by (simp add: sync_repo_contents_def writes_probed_def)
  next
    case False
    with assms(1-3) show ?thesis
      by (simp add: sync_repo_contents_def sync_run_writes_probed)
  qed
  from writes_probedD[OF this assms(4-6)] show ?thesis
    by (auto simp: probed_before_def split: call.splits)
qed


lemmas sync_defs = sync_repo_contents_def sync_run_def validateRepo_def tree_blobs_def
  sync_file_def sync_get_def sync_check_def sync_put_def sync_tree_get_def existing_sha_def
  MAX_FILES_def fetch_def Let_def sync_body_def branch_ready_def owned_by_alice_def up_sync_def



text \<open>
  In the scenario, the write of \<open>d/old.txt\<close> (position 7 of the log) carries the hash \<open>h1\<close>
  that the probe before it found, and the write of \<open>new.txt\<close> (position 10), whose probe
  was answered 404, carries none.
\<close>

theorem sync_write_carries_probed_sha_witness:
  "(\<exists>probe pr.
      snd (sync_repo_contents (Some alice_credential) branch_ready up_sync (post sync_body)) ! 6
        = Fetch probe pr
      \<and> verb probe = GET
      \<and> url probe = ''https://api.github.com/repos/alice/dst/contents/d/old.txt?ref=dev''
      \<and> Some (JStr ''h1'') = found_sha pr)
   \<and> (\<exists>probe pr.
      snd (sync_repo_contents (Some alice_credential) branch_ready up_sync (post sync_body)) ! 9
        = Fetch probe pr
      \<and> verb probe = GET
      \<and> url probe = ''https://api.github.com/repos/alice/dst/contents/new.txt?ref=dev''
      \<and> None = found_sha pr)"
proof -
  let ?log = "snd (sync_repo_contents (Some alice_credential) branch_ready up_sync (post sync_body))"
  let ?old = "sync_put ''tok'' ''alice'' ''src'' ''dst'' ''main'' ''dev'' ''d/old.txt''
        (Some (JStr ''b2xk'')) (Some (JStr ''h1''))"
  let ?new = "sync_put ''tok'' ''alice'' ''src'' ''dst'' ''main'' ''dev'' ''new.txt''
        (Some (JStr ''bmV3'')) None"
  note ev = sync_defs schema_defs zod_defs scenario_defs js_defs
  have b: "body_json (post sync_body) = Some sync_body"
    by (simp add: post_def)
  have v: "safeParse syncRepoSchema sync_body = Inr sync_body"
    by (simp add: sync_body_def schema_defs zod_defs)
  have db: "str_field sync_body ''destBranch'' = ''dev''"
    by (simp add: sync_body_def str_field_def)
  have len: "length ?log = 11"
    by (simp add: ev)
  have at7: "?log ! 7 = Fetch ?old (answer 201 (JObj []))"
    and at10: "?log ! 10 = Fetch ?new (answer 201 (JObj []))"
    by (simp_all add: ev)
  have put: "verb ?old = PUT" "verb ?new = PUT"
    and urls: "url ?old = ''https://api.github.com/repos/alice/dst/contents/d/old.txt''"
      "url ?new = ''https://api.github.com/repos/alice/dst/contents/new.txt''"
    and shas: "opt_prop (payload ?old) ''sha'' = Some (JStr ''h1'')"
      "opt_prop (payload ?new) ''sha'' = None"
    by (simp_all add: sync_put_def contents_url_def stringify_def)
  have i7: "7 < length ?log" and i10: "10 < length ?log"
    by (simp_all add: len)
  from sync_write_carries_probed_sha[OF b v refl i7 at7 put(1)]
       sync_write_carries_probed_sha[OF b v refl i10 at10 put(2)]
  show ?thesis
    by (simp add: db urls shas)
qed


lemma blob_items_filter:
  "list_all (\<lambda>item. item \<noteq> JNull) items \<Longrightarrow> blob_items items = Inr (filter is_blob items)"
proof (induction items)
  case Nil
  then show ?case by simp
next
  case (Cons x xs)
  then show ?case
    by (cases x) (simp_all add: is_blob_def)
qed

lemma is_blob_path:
  "is_blob item \<Longrightarrow> get_prop (Some item) ''path'' = Inr (opt_prop (Some item) ''path'')"
  by (cases item) (simp_all add: is_blob_def)

lemma sync_file_segment:
  assumes "is_blob item"
    and "sync_file up tok owner src dst sb db log item = (synced, log')"
  shows "\<exists>seg. log' = log @ seg \<and> calls_for tok owner src dst sb db item seg
           \<and> length (filter ok_write seg) = (if synced then 1 else 0)"
proof -
  let ?path = "template (opt_prop (Some item) ''path'')"
  let ?g = "sync_get tok owner src sb ?path"
  let ?c = "sync_check tok owner dst db ?path"
  have nw: "\<not> ok_write (Fetch ?g r)" "\<not> ok_write (Fetch ?c r)" for r
    by (simp_all add: ok_write_def sync_get_def sync_check_def)
  from sync_file_cases[OF assms(2) is_blob_path[OF assms(1)] refl]
  consider (A) r where "log' = log @ [Fetch ?g r]" "\<not> synced"
    | (B) r a where "log' = log @ [Fetch ?g r, Fetch ?c a]" "\<not> synced"
    | (C) r a content w where
        "log' = log @ [Fetch ?g r, Fetch ?c a,
                       Fetch (sync_put tok owner src dst sb db ?path content (found_sha a)) w]"
        "synced = (\<not> failed w)"
    by blast
  then show ?thesis
  proof cases
    case A
    show ?thesis
      by (rule exI[of _ "[Fetch ?g r]"]) (simp add: A nw calls_for_def)
  next
    case B
    show ?thesis
      by (rule exI[of _ "[Fetch ?g r, Fetch ?c a]"]) (simp add: B nw calls_for_def)
  next
    case C
    let ?w = "sync_put tok owner src dst sb db ?path content (found_sha a)"
    have w: "verb ?w = PUT" "url ?w = contents_url owner dst ?path"
      "verb ?g = GET" "verb ?c = GET"
      by (simp_all add: sync_put_def sync_get_def sync_check_def)
    show ?thesis
      by (rule exI[of _ "[Fetch ?g r, Fetch ?c a, Fetch ?w w]"])
         (simp add: C w calls_for_def ok_write_def)
  qed
qed

lemma sync_loop_segments:
  "list_all is_blob items \<Longrightarrow>
   sync_loop up tok owner src dst sb db log items n = (n', log') \<Longrightarrow>
   \<exists>segs. list_all2 (calls_for tok owner src dst sb db) items segs
     \<and> log' = log @ concat segs
     \<and> n' = n + length (filter ok_write (concat segs))"
proof (induction items arbitrary: log n)
  case Nil
  then show ?case by simp
next
  case (Cons x xs)
  obtain synced log1 where sf: "sync_file up tok owner src dst sb db log x = (synced, log1)"
    by force
  from Cons.prems(1) have bx: "is_blob x" and bxs: "list_all is_blob xs"
    by simp_all
  from sync_file_segment[OF bx sf] obtain seg where seg:
    "log1 = log @ seg" "calls_for tok owner src dst sb db x seg"
    "length (filter ok_write seg) = (if synced then 1 else 0)"
    by blast
  from Cons.prems(2) sf have
    "sync_loop up tok owner src dst sb db log1 xs (if synced then n + 1 else n) = (n', log')"
    by simp
  from Cons.IH[OF bxs this] obtain segs where segs:
    "list_all2 (calls_for tok owner src dst sb db) xs segs"
    "log' = log1 @ concat segs"
    "n' = (if synced then n + 1 else n) + length (filter ok_write (concat segs))"
    by blast
  show ?case
    by (rule exI[of _ "seg # segs"]) (simp add: seg segs)
qed


lemma validateRepo_no_ok_write:
  "filter ok_write (snd (validateRepo up log tok owner repo)) = filter ok_write log"
proof -
  obtain r where "snd (validateRepo up log tok owner repo) =
      log @ [Fetch \<lparr>verb = GET, url = repo_url owner repo, headers = gh_headers tok,
                    payload = None\<rparr> r]"
    using validateRepo_log by blast
  then show ?thesis by (simp add: ok_write_def)
qed

text \<open>
  Claim C7: when the credential resolves, both repositories validate, the destination
  branch is ready and the recursive tree listing is answered with success, the handler
  answers 200 with \<open>success: true\<close> whatever the size of the tree and whatever happens to
  the individual files. After the listing, the log consists of one non-empty group of
  calls for each of the first 100 blob entries of the listing, in order, and of nothing
  else: entries that are not blobs, and blobs beyond the first 100, are never attempted.
  \<open>total_files\<close> is the number of all blob entries (not capped) and \<open>files_synced\<close> is the
  number of successful writes in the log.
\<close>

theorem sync_attempts_first_hundred_blobs:
  assumes "http_method req \<noteq> ''OPTIONS''"
    and "body_json req = Some body"
    and "safeParse syncRepoSchema body = Inr d"
    and "str_field d ''sourceRepo'' = sourceRepo" and "str_field d ''destRepo'' = destRepo"
    and "str_field d ''sourceBranch'' = sourceBranch"
    and "str_field d ''destBranch'' = destBranch"
    and "getGitHubToken = Some profile"
    and "access_token profile = githubToken" and "account profile = owner"
    and "validateRepo up [GetGitHubToken] githubToken owner sourceRepo = (None, seen_source)"
    and "validateRepo up seen_source githubToken owner destRepo = (None, seen_dest)"
    and "br_success (createOrGetBranch seen_dest)"
    and "branched = seen_dest @ [CreateOrGetBranch owner destRepo destBranch]"
    and "list_tree = sync_tree_get githubToken owner sourceRepo sourceBranch"
    and "up branched list_tree = Responded treeResponse"
    and "ok treeResponse" and "json_body treeResponse = Some treeData"
    and "get_prop (Some treeData) ''tree'' = Inr (Some (JArr items))"
    and "list_all (\<lambda>item. item \<noteq> JNull) items"
    and "blobs = filter is_blob items"
  shows "\<exists>segs log.
      sync_repo_contents getGitHubToken createOrGetBranch up req =
        (respond 200 (JObj
           [(''success'', JBool True),
            (''files_synced'', JNum (int (length (filter ok_write log)))),
            (''total_files'', JNum (int (length blobs)))]),
         log)
    \<and> log = branched @ [Fetch list_tree (Responded treeResponse)] @ concat segs
    \<and> list_all2 (calls_for githubToken owner sourceRepo destRepo sourceBranch destBranch)
         (take 100 blobs) segs"
proof -
  let ?listed = "branched @ [Fetch list_tree (Responded treeResponse)]"
  have tb: "tree_blobs treeData = Inr blobs"
    using assms(19-21) by (simp add: tree_blobs_def blob_items_filter)
  obtain n log where loop:
    "sync_loop up githubToken owner sourceRepo destRepo sourceBranch destBranch ?listed
       (take 100 blobs) 0 = (n, log)"
    by force
  have "list_all is_blob (take 100 blobs)"
    using assms(21) by (auto simp: list_all_iff dest: in_set_takeD)
  from sync_loop_segments[OF this loop] obtain segs where segs:
    "list_all2 (calls_for githubToken owner sourceRepo destRepo sourceBranch destBranch)
       (take 100 blobs) segs"
    "log = ?listed @ concat segs"
    "n = length (filter ok_write (concat segs))"
    by auto
  have "filter ok_write seen_source = []"
    using validateRepo_no_ok_write[of up "[GetGitHubToken]" githubToken owner sourceRepo] assms(11)
    by (simp add: ok_write_def)
  then have "filter ok_write seen_dest = []"
    using validateRepo_no_ok_write[of up seen_source githubToken owner destRepo] assms(12)
    by simp
  then have pre: "filter ok_write ?listed = []"
    using assms(14,15) by (simp add: ok_write_def sync_tree_get_def)
  have count: "n = length (filter ok_write log)"
    using segs(2,3) pre by (auto split: if_splits)
  have run: "sync_repo_contents getGitHubToken createOrGetBranch up req =
        (respond 200 (JObj
           [(''success'', JBool True),
            (''files_synced'', JNum (int (length (filter ok_write log)))),
            (''total_files'', JNum (int (length blobs)))]),
         log)"
    using assms(1-18) tb loop count
    by (simp add: sync_repo_contents_def sync_run_def Let_def fetch_def MAX_FILES_def)
  show ?thesis
    using run segs(1,2) by (intro exI[of _ segs] exI[of _ log]) simp
qed





text \<open>
  A source tree of one directory and 101 files: 100 groups of calls are made,
  \<open>total_files\<close> is 101 and the response is a success.
\<close>

theorem sync_attempts_first_hundred_blobs_witness:
  "\<exists>segs log.
      sync_repo_contents (Some alice_credential) branch_ready up_big (post sync_body) =
        (respond 200 (JObj
           [(''success'', JBool True),
            (''files_synced'', JNum (int (length (filter ok_write log)))),
            (''total_files'', JNum 101)]),
         log)
    \<and> list_all2 (calls_for ''tok'' ''alice'' ''src'' ''dst'' ''main'' ''dev'')
         (take 100 (filter is_blob big_tree)) segs
    \<and> length segs = 100"
proof -
  let ?v1 = "Fetch \<lparr>verb = GET, url = repo_url ''alice'' ''src'', headers = gh_headers ''tok'',
                    payload = None\<rparr> (answer 200 owned_by_alice)"
  let ?v2 = "Fetch \<lparr>verb = GET, url = repo_url ''alice'' ''dst'', headers = gh_headers ''tok'',
                    payload = None\<rparr> (answer 200 owned_by_alice)"
  let ?treeData = "JObj [(''tree'', JArr big_tree)]"
  let ?treeResponse = "\<lparr>status = 200, rtext = [], json_body = Some ?treeData\<rparr>"
  have h1: "http_method (post sync_body) \<noteq> ''OPTIONS''"
    and h2: "body_json (post sync_body) = Some sync_body"
    by (simp_all add: post_def)
  have h3: "safeParse syncRepoSchema sync_body = Inr sync_body"
    by (simp add: sync_body_def schema_defs zod_defs)
  have h4: "str_field sync_body ''sourceRepo'' = ''src''"
    and h5: "str_field sync_body ''destRepo'' = ''dst''"
    and h6: "str_field sync_body ''sourceBranch'' = ''main''"
    and h7: "str_field sync_body ''destBranch'' = ''dev''"
    by (simp_all add: sync_body_def str_field_def)
  have h9: "access_token alice_credential = ''tok''"
    and h10: "account alice_credential = ''alice''"
    by (simp_all add: alice_credential_def)
  have h11: "validateRepo up_big [GetGitHubToken] ''tok'' ''alice'' ''src''
               = (None, [GetGitHubToken, ?v1])"
    and h12: "validateRepo up_big [GetGitHubToken, ?v1] ''tok'' ''alice'' ''dst''
               = (None, [GetGitHubToken, ?v1, ?v2])"
    by (simp_all add: validateRepo_def fetch_def Let_def up_big_def answer_def owned_by_alice_def
          repo_url_def ok_def get_prop2_def)
  have h13: "br_success (branch_ready [GetGitHubToken, ?v1, ?v2])"
    by (simp add: branch_ready_def)
  have h16: "up_big ([GetGitHubToken, ?v1, ?v2] @ [CreateOrGetBranch ''alice'' ''dst'' ''dev''])
               (sync_tree_get ''tok'' ''alice'' ''src'' ''main'') = Responded ?treeResponse"
    by (simp add: up_big_def sync_tree_get_def git_url_def repo_url_def answer_def)
  have h17: "ok ?treeResponse" and h18: "json_body ?treeResponse = Some ?treeData"
    and h19: "get_prop (Some ?treeData) ''tree'' = Inr (Some (JArr big_tree))"
    by (simp_all add: ok_def)
  have h20: "list_all (\<lambda>item. item \<noteq> JNull) big_tree"
    by (simp add: big_tree_def entry_def list_all_iff)
  have blobs: "filter is_blob big_tree
      = map (\<lambda>n. entry (''d/f'' @ show_nat n) ''blob'' ''s'') file_numbers"
    by (simp add: big_tree_def entry_def is_blob_def filter_map o_def)
  from sync_attempts_first_hundred_blobs[where createOrGetBranch = branch_ready and up = up_big,
      OF h1 h2 h3 h4 h5 h6 h7 refl h9 h10 h11 h12 h13 refl refl
      h16 h17 h18 h19 h20 refl]
  obtain segs log where
    run: "sync_repo_contents (Some alice_credential) branch_ready up_big (post sync_body) =
        (respond 200 (JObj
           [(''success'', JBool True),
            (''files_synced'', JNum (int (length (filter ok_write log)))),
            (''total_files'', JNum (int (length (filter is_blob big_tree))))]),
         log)"
    and segs: "list_all2 (calls_for ''tok'' ''alice'' ''src'' ''dst'' ''main'' ''dev'')
         (take 100 (filter is_blob big_tree)) segs"
    by blast
  have n: "length file_numbers = 101"
    by (simp add: file_numbers_def)
  from segs have "length segs = min (length (filter is_blob big_tree)) 100"
    using list_all2_lengthD by fastforce
  then have len: "length segs = 100"
    by (simp add: blobs n)
  from run have run':
    "sync_repo_contents (Some alice_credential) branch_ready up_big (post sync_body) =
        (respond 200 (JObj
           [(''success'', JBool True),
            (''files_synced'', JNum (int (length (filter ok_write log)))),
            (''total_files'', JNum 101)]),
         log)"
    by (simp add: blobs n)
  show ?thesis
    by (rule exI[of _ segs], rule exI[of _ log]) (simp add: run' len segs)
qed


end
